theory Spec2Isabelle
  imports Main "HOL-Library.Word"
begin

section \<open>Byte buffers, errors and text encodings\<close>

text \<open>
  An \<open>ArrayBuffer\<close> / \<open>Uint8Array\<close> is a list of bytes. A JavaScript string is modelled as
  a list of 8-bit characters (the Latin-1 range: every string the code builds from bytes,
  base64 text, PEM text and permission lists lies in it).

  A rejected promise or a thrown exception is the left summand of \<open>error + 'a\<close>. The
  \<open>DOMException\<close>s of the platform are told apart by name, and so are the \<open>SyntaxError\<close>
  of \<open>JSON.parse\<close>, the \<open>TypeError\<close> of the language and the two errors of the database
  client (a unique constraint violated, a record to update not found); \<open>Error msg\<close> is a
  plain \<open>new Error(msg)\<close> of the source.
\<close>

type_synonym bytes = "8 word list"

datatype error =
    InvalidCharacterError
  | InvalidAccessError
  | NotSupportedError
  | DataError
  | OperationError
  | JsonSyntaxError
  | TypeError
  | UniqueConstraintViolation
  | RecordNotFound
  | Error string

definition bindE :: "error + 'a \<Rightarrow> ('a \<Rightarrow> error + 'b) \<Rightarrow> error + 'b" where
  "bindE m f = (case m of Inl e \<Rightarrow> Inl e | Inr v \<Rightarrow> f v)"

subsection \<open>The platform's \<open>btoa\<close> and \<open>atob\<close>\<close>

text \<open>
  A binary string (one character per byte) is represented by the list of its character
  codes. \<open>btoa\<close> is RFC 4648 base64 with padding; every code it is given here is a byte, so
  its \<open>InvalidCharacterError\<close> for a code above 255 cannot arise. \<open>atob\<close> is the forgiving
  base64 decoder of the HTML standard: ASCII whitespace is dropped, up to two trailing
  \<open>=\<close> are dropped when the length is a multiple of four, a length of 1 modulo 4 or a
  character outside the alphabet throws \<open>InvalidCharacterError\<close>, and leftover bits are
  discarded.
\<close>

definition b64chars :: string where
  "b64chars = ''ABCDEFGHIJKLMNOPQRSTUVWXYZabcdefghijklmnopqrstuvwxyz0123456789+/''"

fun b64_index_from :: "nat \<Rightarrow> char \<Rightarrow> string \<Rightarrow> nat option" where
  "b64_index_from i c [] = None"
| "b64_index_from i c (x # xs) = (if x = c then Some i else b64_index_from (Suc i) c xs)"

definition b64_index :: "char \<Rightarrow> nat option" where
  "b64_index c = b64_index_from 0 c b64chars"

definition b64_char :: "nat \<Rightarrow> char" where
  "b64_char n = b64chars ! (n mod 64)"

fun btoa :: "nat list \<Rightarrow> string" where
  "btoa [] = []"
| "btoa [a] =
     (let n = a * 16
      in [b64_char (n div 64), b64_char n, CHR ''='', CHR ''=''])"
| "btoa [a, b] =
     (let n = (a * 256 + b) * 4
      in [b64_char (n div 4096), b64_char (n div 64), b64_char n, CHR ''=''])"
| "btoa (a # b # c # rest) =
     (let n = a * 65536 + b * 256 + c
      in [b64_char (n div 262144), b64_char (n div 4096), b64_char (n div 64), b64_char n]
         @ btoa rest)"

definition ascii_whitespace :: "char \<Rightarrow> bool" where
  "ascii_whitespace c =
     (c = CHR 0x09 \<or> c = CHR 0x0A \<or> c = CHR 0x0C \<or> c = CHR 0x0D \<or> c = CHR 0x20)"

definition strip_one_eq :: "string \<Rightarrow> string" where
  "strip_one_eq s = (if s \<noteq> [] \<and> last s = CHR ''='' then butlast s else s)"

fun b64_decode_sextets :: "nat list \<Rightarrow> nat list" where
  "b64_decode_sextets (a # b # c # d # rest) =
     (let n = a * 262144 + b * 4096 + c * 64 + d
      in [(n div 65536) mod 256, (n div 256) mod 256, n mod 256] @ b64_decode_sextets rest)"
| "b64_decode_sextets [a, b, c] =
     (let n = (a * 4096 + b * 64 + c) div 4
      in [(n div 256) mod 256, n mod 256])"
| "b64_decode_sextets [a, b] = [((a * 64 + b) div 16) mod 256]"
| "b64_decode_sextets _ = []"

definition atob :: "string \<Rightarrow> error + nat list" where
  "atob s =
     (let d = filter (\<lambda>c. \<not> ascii_whitespace c) s;
          d' = (if length d mod 4 = 0 then strip_one_eq (strip_one_eq d) else d)
      in if length d' mod 4 = 1 then Inl InvalidCharacterError
         else if list_ex (\<lambda>c. b64_index c = None) d' then Inl InvalidCharacterError
         else Inr (b64_decode_sextets (map (\<lambda>c. the (b64_index c)) d')))"

subsection \<open>\<open>arrayBufferToBase64\<close>, \<open>base64ToArrayBuffer\<close> (crypto.ts)\<close>

text \<open>
  The loops of the source copy byte \<open>i\<close> to character \<open>i\<close> (\<open>String.fromCharCode\<close>) and
  back (\<open>charCodeAt\<close>); they are the two \<open>map\<close>s.
\<close>

definition arrayBufferToBase64 :: "bytes \<Rightarrow> string" where
  "arrayBufferToBase64 buffer = btoa (map unat buffer)"

definition base64ToArrayBuffer :: "string \<Rightarrow> error + bytes" where
  "base64ToArrayBuffer base64 = bindE (atob base64) (\<lambda>binary. Inr (map of_nat binary))"

section \<open>The Web Cryptography API as the code calls it\<close>

text \<open>
  The algorithms themselves (RSA-OAEP, AES-GCM, SHA-256, the SPKI parser, RSA key
  generation) belong to the platform and are parameters: a record of functions on byte
  buffers. RSA-OAEP encryption is randomised (the \<open>nat\<close> is its random seed) and fails on a
  message that is too long; decryption fails on a wrong key or a corrupted ciphertext.
  \<open>aes_gcm_encrypt key iv data\<close> is the ciphertext followed by the 16-byte
  authentication tag, as \<open>crypto.subtle.encrypt\<close> returns it.
\<close>

record crypto_prims =
  rsa_keygen :: "nat \<Rightarrow> bytes \<times> bytes"
  rsa_oaep_encrypt :: "bytes \<Rightarrow> nat \<Rightarrow> bytes \<Rightarrow> bytes option"
  rsa_oaep_decrypt :: "bytes \<Rightarrow> bytes \<Rightarrow> bytes option"
  aes_gcm_encrypt :: "bytes \<Rightarrow> bytes \<Rightarrow> bytes \<Rightarrow> bytes"
  aes_gcm_decrypt :: "bytes \<Rightarrow> bytes \<Rightarrow> bytes \<Rightarrow> bytes option"
  sha256 :: "bytes \<Rightarrow> bytes"
  spki_parse :: "bytes \<Rightarrow> bytes option"

text \<open>
  A \<open>CryptoKey\<close> carries its type, algorithm, the \<open>extractable\<close> flag and the usages it
  was created with; the methods of \<open>crypto.subtle\<close> check them before they run the
  algorithm. Only the two usages the code passes are modelled.
\<close>

datatype KeyType = KPublic | KPrivate | KSecret

datatype KeyAlgorithm = RSA_OAEP | AES_GCM

datatype KeyUsage = UEncrypt | UDecrypt

record CryptoKey =
  keyType :: KeyType
  algorithm :: KeyAlgorithm
  extractable :: bool
  usages :: "KeyUsage list"
  material :: bytes

record KeyPair =
  kp_publicKey :: CryptoKey
  kp_privateKey :: CryptoKey

text \<open>
  \<open>exportKey('raw', key)\<close>: a key that is not extractable is refused with
  \<open>InvalidAccessError\<close>; the raw format exists for secret keys only.
\<close>

definition subtle_exportKey_raw :: "CryptoKey \<Rightarrow> error + bytes" where
  "subtle_exportKey_raw key =
     (if \<not> extractable key then Inl InvalidAccessError
      else if algorithm key \<noteq> AES_GCM then Inl NotSupportedError
      else Inr (material key))"

text \<open>
  \<open>importKey('raw', keyData, {name: 'AES-GCM', ...}, extractable, usages)\<close>: the data must
  be 128, 192 or 256 bits long (\<open>DataError\<close> otherwise).
\<close>

definition subtle_importKey_raw_AES :: "bytes \<Rightarrow> bool \<Rightarrow> KeyUsage list \<Rightarrow> error + CryptoKey" where
  "subtle_importKey_raw_AES keyData ext us =
     (if length keyData = 16 \<or> length keyData = 24 \<or> length keyData = 32
      then Inr \<lparr>keyType = KSecret, algorithm = AES_GCM, extractable = ext, usages = us,
                material = keyData\<rparr>
      else Inl DataError)"

definition subtle_importKey_spki ::
  "crypto_prims \<Rightarrow> bytes \<Rightarrow> bool \<Rightarrow> KeyUsage list \<Rightarrow> error + CryptoKey" where
  "subtle_importKey_spki P keyData ext us =
     (case spki_parse P keyData of
        None \<Rightarrow> Inl DataError
      | Some m \<Rightarrow> Inr \<lparr>keyType = KPublic, algorithm = RSA_OAEP, extractable = ext, usages = us,
                       material = m\<rparr>)"

definition subtle_generateKey_AES :: "bytes \<Rightarrow> bool \<Rightarrow> KeyUsage list \<Rightarrow> CryptoKey" where
  "subtle_generateKey_AES random ext us =
     \<lparr>keyType = KSecret, algorithm = AES_GCM, extractable = ext, usages = us,
      material = random\<rparr>"

definition subtle_encrypt_RSA_OAEP :: "crypto_prims \<Rightarrow> CryptoKey \<Rightarrow> nat \<Rightarrow> bytes \<Rightarrow> error + bytes" where
  "subtle_encrypt_RSA_OAEP P key seed data =
     (if algorithm key \<noteq> RSA_OAEP \<or> UEncrypt \<notin> set (usages key) \<or> keyType key \<noteq> KPublic
      then Inl InvalidAccessError
      else case rsa_oaep_encrypt P (material key) seed data of
             None \<Rightarrow> Inl OperationError
           | Some c \<Rightarrow> Inr c)"

definition subtle_decrypt_RSA_OAEP :: "crypto_prims \<Rightarrow> CryptoKey \<Rightarrow> bytes \<Rightarrow> error + bytes" where
  "subtle_decrypt_RSA_OAEP P key data =
     (if algorithm key \<noteq> RSA_OAEP \<or> UDecrypt \<notin> set (usages key) \<or> keyType key \<noteq> KPrivate
      then Inl InvalidAccessError
      else case rsa_oaep_decrypt P (material key) data of
             None \<Rightarrow> Inl OperationError
           | Some m \<Rightarrow> Inr m)"

definition subtle_encrypt_AES_GCM :: "crypto_prims \<Rightarrow> CryptoKey \<Rightarrow> bytes \<Rightarrow> bytes \<Rightarrow> error + bytes" where
  "subtle_encrypt_AES_GCM P key iv data =
     (if algorithm key \<noteq> AES_GCM \<or> UEncrypt \<notin> set (usages key)
      then Inl InvalidAccessError
      else Inr (aes_gcm_encrypt P (material key) iv data))"

definition subtle_decrypt_AES_GCM :: "crypto_prims \<Rightarrow> CryptoKey \<Rightarrow> bytes \<Rightarrow> bytes \<Rightarrow> error + bytes" where
  "subtle_decrypt_AES_GCM P key iv data =
     (if algorithm key \<noteq> AES_GCM \<or> UDecrypt \<notin> set (usages key)
      then Inl InvalidAccessError
      else case aes_gcm_decrypt P (material key) iv data of
             None \<Rightarrow> Inl OperationError
           | Some m \<Rightarrow> Inr m)"

section \<open>crypto.ts\<close>

record EncryptedData =
  ed_encryptedData :: bytes
  ed_iv :: bytes
  ed_authTag :: bytes

record EncryptedFile =
  ef_encryptedData :: bytes
  ef_encryptedKey :: bytes
  ef_iv :: bytes
  ef_authTag :: bytes
  ef_checksum :: string

text \<open>
  The random values a call draws are arguments: the RSA seed of \<open>generateRSAKeyPair\<close>, the
  32 bytes of \<open>generateAESKey\<close>, the 12-byte IV of \<open>encryptWithAES\<close>, the OAEP seed of
  \<open>encryptKeyWithRSA\<close>.
\<close>

definition generateRSAKeyPair :: "crypto_prims \<Rightarrow> nat \<Rightarrow> KeyPair" where
  "generateRSAKeyPair P seed =
     \<lparr>kp_publicKey = \<lparr>keyType = KPublic, algorithm = RSA_OAEP, extractable = True,
                    usages = [UEncrypt], material = fst (rsa_keygen P seed)\<rparr>,
      kp_privateKey = \<lparr>keyType = KPrivate, algorithm = RSA_OAEP, extractable = True,
                     usages = [UDecrypt], material = snd (rsa_keygen P seed)\<rparr>\<rparr>"

definition generateAESKey :: "bytes \<Rightarrow> CryptoKey" where
  "generateAESKey random = subtle_generateKey_AES random True [UEncrypt, UDecrypt]"

text \<open>
  \<open>slice(0, -16)\<close> and \<open>slice(-16)\<close> cut the result at \<open>length - 16\<close>, or at 0 when it is
  shorter than 16 bytes: the truncating subtraction of \<open>nat\<close>.
\<close>

definition encryptWithAES :: "crypto_prims \<Rightarrow> bytes \<Rightarrow> bytes \<Rightarrow> CryptoKey \<Rightarrow> error + EncryptedData" where
  "encryptWithAES P iv data key =
     bindE (subtle_encrypt_AES_GCM P key iv data) (\<lambda>encrypted.
       let authTagLength = 16;
           encryptedData = take (length encrypted - authTagLength) encrypted;
           authTag = drop (length encrypted - authTagLength) encrypted
       in Inr \<lparr>ed_encryptedData = encryptedData, ed_iv = iv, ed_authTag = authTag\<rparr>)"

definition decryptWithAES :: "crypto_prims \<Rightarrow> bytes \<Rightarrow> CryptoKey \<Rightarrow> bytes \<Rightarrow> bytes \<Rightarrow> error + bytes" where
  "decryptWithAES P encryptedData key iv authTag =
     (let combined = encryptedData @ authTag
      in subtle_decrypt_AES_GCM P key iv combined)"

definition encryptKeyWithRSA :: "crypto_prims \<Rightarrow> nat \<Rightarrow> CryptoKey \<Rightarrow> CryptoKey \<Rightarrow> error + bytes" where
  "encryptKeyWithRSA P seed aesKey rsaPublicKey =
     bindE (subtle_exportKey_raw aesKey) (\<lambda>keyData.
       subtle_encrypt_RSA_OAEP P rsaPublicKey seed keyData)"

definition decryptKeyWithRSA :: "crypto_prims \<Rightarrow> bytes \<Rightarrow> CryptoKey \<Rightarrow> error + CryptoKey" where
  "decryptKeyWithRSA P encryptedKey rsaPrivateKey =
     bindE (subtle_decrypt_RSA_OAEP P rsaPrivateKey encryptedKey) (\<lambda>keyData.
       subtle_importKey_raw_AES keyData False [UEncrypt, UDecrypt])"

definition hex_digit :: "nat \<Rightarrow> char" where
  "hex_digit n = ''0123456789abcdef'' ! (n mod 16)"

definition hex_byte :: "8 word \<Rightarrow> string" where
  "hex_byte b = [hex_digit (unat b div 16), hex_digit (unat b)]"

definition calculateFileHash :: "crypto_prims \<Rightarrow> bytes \<Rightarrow> string" where
  "calculateFileHash P data = concat (map hex_byte (sha256 P data))"

record entropy =
  aes_key_random :: bytes
  iv_random :: bytes
  oaep_seed :: nat

definition encryptFile :: "crypto_prims \<Rightarrow> entropy \<Rightarrow> bytes \<Rightarrow> CryptoKey \<Rightarrow> error + EncryptedFile" where
  "encryptFile P rnd fileData rsaPublicKey =
     (let aesKey = generateAESKey (aes_key_random rnd)
      in bindE (encryptWithAES P (iv_random rnd) fileData aesKey) (\<lambda>encryptedData.
         bindE (encryptKeyWithRSA P (oaep_seed rnd) aesKey rsaPublicKey) (\<lambda>encryptedKey.
         let checksum = calculateFileHash P fileData
         in Inr \<lparr>ef_encryptedData = ed_encryptedData encryptedData,
                 ef_encryptedKey = encryptedKey,
                 ef_iv = ed_iv encryptedData,
                 ef_authTag = ed_authTag encryptedData,
                 ef_checksum = checksum\<rparr>)))"

definition decryptFile ::
  "crypto_prims \<Rightarrow> bytes \<Rightarrow> bytes \<Rightarrow> bytes \<Rightarrow> bytes \<Rightarrow> CryptoKey \<Rightarrow> error + bytes" where
  "decryptFile P encryptedData encryptedKey iv authTag rsaPrivateKey =
     bindE (decryptKeyWithRSA P encryptedKey rsaPrivateKey) (\<lambda>aesKey.
       decryptWithAES P encryptedData aesKey iv authTag)"

text \<open>
  \<open>importPublicKeyFromPEM\<close>: \<open>replace\<close> with a string pattern removes the first occurrence;
  \<open>/\s/g\<close> removes every white-space character (those of the Latin-1 range are listed).
\<close>

fun replace_first :: "string \<Rightarrow> string \<Rightarrow> string" where
  "replace_first pat [] = []"
| "replace_first pat (c # cs) =
     (if take (length pat) (c # cs) = pat then drop (length pat) (c # cs)
      else c # replace_first pat cs)"

definition js_whitespace :: "char \<Rightarrow> bool" where
  "js_whitespace c =
     (c = CHR 0x09 \<or> c = CHR 0x0A \<or> c = CHR 0x0B \<or> c = CHR 0x0C \<or> c = CHR 0x0D \<or>
      c = CHR 0x20 \<or> c = CHR 0xA0)"

definition importPublicKeyFromPEM :: "crypto_prims \<Rightarrow> string \<Rightarrow> error + CryptoKey" where
  "importPublicKeyFromPEM P pem =
     (let base64 = filter (\<lambda>c. \<not> js_whitespace c)
                     (replace_first ''-----END PUBLIC KEY-----''
                       (replace_first ''-----BEGIN PUBLIC KEY-----'' pem))
      in bindE (base64ToArrayBuffer base64) (\<lambda>keyData.
           subtle_importKey_spki P keyData False [UEncrypt]))"

section \<open>share-crypto.ts\<close>

text \<open>
  \<open>reEncryptFileKey\<close>: the four steps run inside \<open>try\<close>; the \<open>catch\<close> replaces whatever was
  thrown by one fixed \<open>Error\<close>.
\<close>

definition reEncryptFileKey ::
  "crypto_prims \<Rightarrow> nat \<Rightarrow> string \<Rightarrow> CryptoKey \<Rightarrow> string \<Rightarrow> error + string" where
  "reEncryptFileKey P seed encryptedFileKey ownerPrivateKey targetPublicKeyPEM =
     (case bindE (base64ToArrayBuffer encryptedFileKey) (\<lambda>encryptedKeyBuffer.
           bindE (decryptKeyWithRSA P encryptedKeyBuffer ownerPrivateKey) (\<lambda>aesKey.
           bindE (importPublicKeyFromPEM P targetPublicKeyPEM) (\<lambda>targetPublicKey.
           bindE (encryptKeyWithRSA P seed aesKey targetPublicKey) (\<lambda>reEncryptedKeyBuffer.
           Inr (arrayBufferToBase64 reEncryptedKeyBuffer))))) of
        Inl e \<Rightarrow> Inl (Error ''No se pudo re-cifrar la clave del archivo'')
      | Inr reEncryptedKey \<Rightarrow> Inr reEncryptedKey)"

definition validatePublicKey :: "crypto_prims \<Rightarrow> string \<Rightarrow> bool" where
  "validatePublicKey P publicKeyPEM =
     (case importPublicKeyFromPEM P publicKeyPEM of Inl e \<Rightarrow> False | Inr k \<Rightarrow> True)"

definition validateSharePermissions :: "string list \<Rightarrow> bool" where
  "validateSharePermissions permissions =
     (let validPermissions = [''read'', ''download'', ''share'']
      in if length permissions = 0 then False
         else list_all (\<lambda>permission. List.member validPermissions permission) permissions)"

section \<open>crypto-utils.ts\<close>

record FileMetadata =
  md_originalName :: string
  md_mimeType :: string
  md_size :: nat
  md_uploadedAt :: int
  md_description :: "string option"
  md_tags :: "string list option"

text \<open>
  \<open>EncryptedFileData\<close>: every binary field in base64; \<open>metadata\<close> is an object of the
  same shape or \<open>null\<close>.
\<close>

datatype EncryptedFileData =
  EncryptedFileData
    (efd_encryptedData: string)
    (efd_encryptedKey: string)
    (efd_iv: string)
    (efd_authTag: string)
    (efd_checksum: string)
    (efd_metadata: "EncryptedFileData option")

record Blob =
  blob_data :: bytes
  blob_type :: string

text \<open>
  \<open>decryptMetadata\<close>, \<open>processFileForDownload\<close> and \<open>validateFileIntegrity\<close> make the same
  call: \<open>decryptFile\<close> on the four decoded fields of an object, the arguments decoded from
  left to right.
\<close>

definition decryptFile_base64 :: "crypto_prims \<Rightarrow> EncryptedFileData \<Rightarrow> CryptoKey \<Rightarrow> error + bytes" where
  "decryptFile_base64 P x privateKey =
     bindE (base64ToArrayBuffer (efd_encryptedData x)) (\<lambda>encryptedData.
     bindE (base64ToArrayBuffer (efd_encryptedKey x)) (\<lambda>encryptedKey.
     bindE (base64ToArrayBuffer (efd_iv x)) (\<lambda>iv.
     bindE (base64ToArrayBuffer (efd_authTag x)) (\<lambda>authTag.
       decryptFile P encryptedData encryptedKey iv authTag privateKey))))"

text \<open>
  What \<open>JSON.parse\<close> returns is any JSON value, whatever type the source declares for it:
  \<open>null\<close>, a boolean, a number, a string, an array, or an object, given by the list of its
  members (each key once). The numbers are a type parameter, and the platform's conversion
  of a number to a string is taken as a function \<open>num\<close>. Strings are, as everywhere here,
  texts over the Latin-1 range.
\<close>

datatype 'n json =
    JNull
  | JBool bool
  | JNumber 'n
  | JString string
  | JArray "'n json list"
  | JObject "(string \<times> 'n json) list"

text \<open>
  \<open>decryptMetadata\<close>: the argument is the JSON text of the object, which \<open>JSON.parse\<close>
  turns back into its fields. \<open>parseJson\<close> stands for \<open>TextDecoder.decode\<close> followed by
  \<open>JSON.parse\<close> on the decrypted bytes (\<open>None\<close>: it throws).
\<close>

definition decryptMetadata ::
  "crypto_prims \<Rightarrow> (bytes \<Rightarrow> 'n json option) \<Rightarrow> EncryptedFileData \<Rightarrow> CryptoKey
     \<Rightarrow> error + 'n json" where
  "decryptMetadata P parseJson parsed privateKey =
     bindE (decryptFile_base64 P parsed privateKey) (\<lambda>decryptedBuffer.
       case parseJson decryptedBuffer of
         None \<Rightarrow> Inl JsonSyntaxError
       | Some v \<Rightarrow> Inr v)"

text \<open>\<open>x || d\<close> on an optional string: \<open>undefined\<close> and the empty string are falsy.\<close>

definition or_default :: "string option \<Rightarrow> string \<Rightarrow> string" where
  "or_default x d = (case x of None \<Rightarrow> d | Some s \<Rightarrow> if s = [] then d else s)"

definition checksum_invalid :: string where
  "checksum_invalid = ''Checksum inv'' @ [CHR 0xE1] @ ''lido - archivo corrupto''"

definition fallback_metadata :: "string option \<Rightarrow> string option \<Rightarrow> bytes \<Rightarrow> int \<Rightarrow> FileMetadata" where
  "fallback_metadata fallbackFilename fallbackMimeType decryptedBuffer now =
     (let fileName = or_default fallbackFilename ''archivo_descargado''
      in \<lparr>md_originalName = fileName,
          md_mimeType = or_default fallbackMimeType ''application/octet-stream'',
          md_size = length decryptedBuffer,
          md_uploadedAt = now,
          md_description = None,
          md_tags = None\<rparr>)"

text \<open>
  The variable \<open>metadata\<close> of \<open>processFileForDownload\<close> holds either the value
  \<open>decryptMetadata\<close> returned or the fallback object the function builds itself.
\<close>

datatype 'n metadata_value =
    Decrypted "'n json"
  | Fallback FileMetadata

text \<open>
  \<open>metadata.mimeType\<close>, the argument \<open>type\<close> of the \<open>Blob\<close> constructor (\<open>None\<close>:
  \<open>undefined\<close>). Reading a property of \<open>null\<close> throws a \<open>TypeError\<close>; an object gives the
  member of that name if it has one; a boolean, a number, a string and an array have no
  property \<open>mimeType\<close>.
\<close>

fun json_mimeType :: "'n json \<Rightarrow> error + 'n json option" where
  "json_mimeType JNull = Inl TypeError"
| "json_mimeType (JObject members) = Inr (map_of members ''mimeType'')"
| "json_mimeType (JBool b) = Inr None"
| "json_mimeType (JNumber n) = Inr None"
| "json_mimeType (JString s) = Inr None"
| "json_mimeType (JArray xs) = Inr None"

definition metadata_mimeType :: "'n metadata_value \<Rightarrow> error + 'n json option" where
  "metadata_mimeType metadata =
     (case metadata of
        Decrypted v \<Rightarrow> json_mimeType v
      | Fallback m \<Rightarrow> Inr (Some (JString (md_mimeType m))))"

text \<open>
  The conversion of a value to a string, which the \<open>Blob\<close> constructor applies to \<open>type\<close>.
  An array is the join of its elements with commas, \<open>null\<close> elements giving the empty
  string; an object is \<open>[object Object]\<close>, unless it has a member \<open>toString\<close> of its own,
  which hides the inherited method and is not callable: then the conversion throws a
  \<open>TypeError\<close>.
\<close>

fun js_ToString :: "('n \<Rightarrow> string) \<Rightarrow> 'n json \<Rightarrow> error + string"
  and js_join :: "('n \<Rightarrow> string) \<Rightarrow> 'n json list \<Rightarrow> error + string" where
  "js_ToString num JNull = Inr ''null''"
| "js_ToString num (JBool b) = Inr (if b then ''true'' else ''false'')"
| "js_ToString num (JNumber n) = Inr (num n)"
| "js_ToString num (JString s) = Inr s"
| "js_ToString num (JArray xs) = js_join num xs"
| "js_ToString num (JObject members) =
     (if map_of members ''toString'' = None then Inr ''[object Object]'' else Inl TypeError)"
| "js_join num [] = Inr []"
| "js_join num (x # xs) =
     bindE (if x = JNull then Inr [] else js_ToString num x) (\<lambda>item.
       if xs = [] then Inr item
       else bindE (js_join num xs) (\<lambda>rest. Inr (item @ '','' @ rest)))"

text \<open>
  \<open>new Blob([buffer], { type })\<close>: an absent \<open>type\<close> is the empty string; a \<open>type\<close> with a
  character outside U+0020 to U+007E becomes the empty string, any other is converted to
  ASCII lower case.
\<close>

definition ascii_lower :: "char \<Rightarrow> char" where
  "ascii_lower c =
     (case map_of (zip ''ABCDEFGHIJKLMNOPQRSTUVWXYZ'' ''abcdefghijklmnopqrstuvwxyz'') c of
        None \<Rightarrow> c
      | Some l \<Rightarrow> l)"

definition blob_type_of :: "string \<Rightarrow> string" where
  "blob_type_of t =
     (if list_all (\<lambda>c. 0x20 \<le> (of_char c :: nat) \<and> (of_char c :: nat) \<le> 0x7E) t
      then map ascii_lower t else [])"

definition new_Blob :: "('n \<Rightarrow> string) \<Rightarrow> bytes \<Rightarrow> 'n json option \<Rightarrow> error + Blob" where
  "new_Blob num buffer type_option =
     bindE (case type_option of None \<Rightarrow> Inr [] | Some v \<Rightarrow> js_ToString num v) (\<lambda>t.
       Inr \<lparr>blob_data = buffer, blob_type = blob_type_of t\<rparr>)"

text \<open>
  \<open>processFileForDownload\<close>. The \<open>try\<close> around \<open>decryptMetadata\<close> replaces whatever it
  throws by the fallback object; the read of \<open>metadata.mimeType\<close> and the construction of
  the \<open>Blob\<close> come after it, outside any \<open>try\<close>.
\<close>

definition processFileForDownload ::
  "crypto_prims \<Rightarrow> (bytes \<Rightarrow> 'n json option) \<Rightarrow> ('n \<Rightarrow> string) \<Rightarrow> int \<Rightarrow> EncryptedFileData
     \<Rightarrow> CryptoKey \<Rightarrow> string option \<Rightarrow> string option \<Rightarrow> error + (Blob \<times> 'n metadata_value)" where
  "processFileForDownload P parseJson num now encryptedFile privateKey fallbackFilename
       fallbackMimeType =
     bindE (decryptFile_base64 P encryptedFile privateKey) (\<lambda>decryptedBuffer.
       let calculatedChecksum = calculateFileHash P decryptedBuffer
       in if calculatedChecksum \<noteq> efd_checksum encryptedFile
          then Inl (Error checksum_invalid)
          else
            let metadata =
              (case efd_metadata encryptedFile of
                 Some m \<Rightarrow>
                   (case decryptMetadata P parseJson m privateKey of
                      Inr v \<Rightarrow> Decrypted v
                    | Inl e \<Rightarrow>
                        Fallback (fallback_metadata fallbackFilename fallbackMimeType
                                    decryptedBuffer now))
               | None \<Rightarrow>
                   Fallback (fallback_metadata fallbackFilename fallbackMimeType
                               decryptedBuffer now))
            in bindE (metadata_mimeType metadata) (\<lambda>mimeType.
               bindE (new_Blob num decryptedBuffer mimeType) (\<lambda>blob.
                 Inr (blob, metadata))))"

text \<open>
  \<open>validateFileIntegrity\<close>: the \<open>catch\<close> turns whatever the \<open>try\<close> block throws into
  \<open>false\<close>. The result is the value the returned promise settles with.
\<close>

definition validateFileIntegrity :: "crypto_prims \<Rightarrow> EncryptedFileData \<Rightarrow> CryptoKey \<Rightarrow> error + bool" where
  "validateFileIntegrity P encryptedFile privateKey =
     (case bindE (decryptFile_base64 P encryptedFile privateKey) (\<lambda>decryptedBuffer.
             let calculatedChecksum = calculateFileHash P decryptedBuffer
             in Inr (calculatedChecksum = efd_checksum encryptedFile)) of
        Inl e \<Rightarrow> Inr False
      | Inr b \<Rightarrow> Inr b)"

section \<open>schema.prisma: the database\<close>

text \<open>
  Each model is a record, each table a list of rows in insertion order. Identifiers are
  the \<open>cuid\<close> strings, a \<open>DateTime\<close> is a number of milliseconds. A handler reads the clock
  once: every \<open>new Date()\<close> and every timestamp the database sets during one request is
  the handler's \<open>now\<close>. The columns of \<open>AuditLog\<close> that copy request headers are left out.
\<close>

record User =
  user_id :: string
  user_email :: string
  user_username :: string
  user_passwordHash :: string
  user_salt :: string
  user_publicKey :: string
  user_encryptedPrivateKey :: string
  user_isEmailVerified :: bool
  user_isTwoFactorEnabled :: bool
  user_lastLoginAt :: "int option"

record Session =
  session_id :: string
  session_userId :: string
  session_sessionToken :: string
  session_accessToken :: "string option"
  session_refreshToken :: "string option"
  session_expiresAt :: int

record File =
  file_id :: string
  file_filename :: string
  file_mimeType :: string
  file_size :: int
  file_encryptedSize :: int
  file_encryptedData :: bytes
  file_encryptedKey :: string
  file_iv :: string
  file_authTag :: string
  file_checksum :: string
  file_ownerId :: string
  file_isDeleted :: bool
  file_deletedAt :: "int option"
  file_encryptedMetadata :: "string option"

record FileShare =
  share_id :: string
  share_fileId :: string
  share_sharedWithId :: string
  share_sharedById :: string
  share_encryptedKey :: string
  share_permissions :: string
  share_expiresAt :: "int option"
  share_isRevoked :: bool
  share_revokedAt :: "int option"
  share_revokedBy :: "string option"
  share_createdAt :: int
  share_updatedAt :: int

record AuditLog =
  log_userId :: "string option"
  log_fileId :: "string option"
  log_action :: string
  log_details :: "(string \<times> string) list"
  log_success :: bool
  log_errorMessage :: "string option"

record db =
  users :: "User list"
  sessions :: "Session list"
  files :: "File list"
  fileShares :: "FileShare list"
  auditLogs :: "AuditLog list"

subsection \<open>The queries the handlers make\<close>

definition file_findUnique :: "db \<Rightarrow> string \<Rightarrow> File option" where
  "file_findUnique d fileId = find (\<lambda>f. file_id f = fileId) (files d)"

definition user_findUnique_email :: "db \<Rightarrow> string \<Rightarrow> User option" where
  "user_findUnique_email d email = find (\<lambda>u. user_email u = email) (users d)"

definition user_findUnique_id :: "db \<Rightarrow> string \<Rightarrow> User option" where
  "user_findUnique_id d userId = find (\<lambda>u. user_id u = userId) (users d)"

definition fileShare_findUnique :: "db \<Rightarrow> string \<Rightarrow> string \<Rightarrow> FileShare option" where
  "fileShare_findUnique d fileId sharedWithId =
     find (\<lambda>s. share_fileId s = fileId \<and> share_sharedWithId s = sharedWithId) (fileShares d)"

text \<open>
  \<open>create\<close> and \<open>update\<close> on \<open>FileShare\<close> take the columns to write as a \<open>data\<close> object
  (the handler's \<open>shareData\<close>). \<open>create\<close> gives the new row its \<open>cuid\<close> and both
  timestamps; \<open>update\<close> overwrites the columns of \<open>data\<close> and \<open>updatedAt\<close>. Both enforce the
  primary key and \<open>@@unique([fileId, sharedWithId])\<close>; \<open>update\<close> throws when no row has the
  given id.
\<close>

record ShareData =
  sd_fileId :: string
  sd_sharedWithId :: string
  sd_sharedById :: string
  sd_encryptedKey :: string
  sd_permissions :: string
  sd_expiresAt :: "int option"
  sd_isRevoked :: bool
  sd_revokedAt :: "int option"
  sd_revokedBy :: "string option"

definition fileShare_new :: "string \<Rightarrow> ShareData \<Rightarrow> int \<Rightarrow> FileShare" where
  "fileShare_new newId data now =
     \<lparr>share_id = newId,
      share_fileId = sd_fileId data,
      share_sharedWithId = sd_sharedWithId data,
      share_sharedById = sd_sharedById data,
      share_encryptedKey = sd_encryptedKey data,
      share_permissions = sd_permissions data,
      share_expiresAt = sd_expiresAt data,
      share_isRevoked = sd_isRevoked data,
      share_revokedAt = sd_revokedAt data,
      share_revokedBy = sd_revokedBy data,
      share_createdAt = now,
      share_updatedAt = now\<rparr>"

definition fileShare_set :: "ShareData \<Rightarrow> int \<Rightarrow> FileShare \<Rightarrow> FileShare" where
  "fileShare_set data now old =
     old\<lparr>share_fileId := sd_fileId data,
         share_sharedWithId := sd_sharedWithId data,
         share_sharedById := sd_sharedById data,
         share_encryptedKey := sd_encryptedKey data,
         share_permissions := sd_permissions data,
         share_expiresAt := sd_expiresAt data,
         share_isRevoked := sd_isRevoked data,
         share_revokedAt := sd_revokedAt data,
         share_revokedBy := sd_revokedBy data,
         share_updatedAt := now\<rparr>"

definition fileShare_create :: "db \<Rightarrow> string \<Rightarrow> ShareData \<Rightarrow> int \<Rightarrow> error + (FileShare \<times> db)" where
  "fileShare_create d newId data now =
     (let row = fileShare_new newId data now
      in if list_ex (\<lambda>s. share_id s = share_id row \<or>
                          (share_fileId s = share_fileId row \<and>
                           share_sharedWithId s = share_sharedWithId row)) (fileShares d)
         then Inl UniqueConstraintViolation
         else Inr (row, d\<lparr>fileShares := fileShares d @ [row]\<rparr>))"

definition fileShare_update :: "db \<Rightarrow> string \<Rightarrow> ShareData \<Rightarrow> int \<Rightarrow> error + (FileShare \<times> db)" where
  "fileShare_update d shareId data now =
     (case find (\<lambda>s. share_id s = shareId) (fileShares d) of
        None \<Rightarrow> Inl RecordNotFound
      | Some old \<Rightarrow>
          let row = fileShare_set data now old
          in if list_ex (\<lambda>s. share_id s \<noteq> shareId \<and>
                              share_fileId s = share_fileId row \<and>
                              share_sharedWithId s = share_sharedWithId row) (fileShares d)
             then Inl UniqueConstraintViolation
             else Inr (row, d\<lparr>fileShares :=
                                map (\<lambda>s. if share_id s = shareId then row else s) (fileShares d)\<rparr>))"

definition fileShare_updateMany :: "db \<Rightarrow> string \<Rightarrow> (FileShare \<Rightarrow> FileShare) \<Rightarrow> db" where
  "fileShare_updateMany d fileId change =
     d\<lparr>fileShares := map (\<lambda>s. if share_fileId s = fileId then change s else s) (fileShares d)\<rparr>"

definition file_update :: "db \<Rightarrow> string \<Rightarrow> (File \<Rightarrow> File) \<Rightarrow> db" where
  "file_update d fileId change =
     d\<lparr>files := map (\<lambda>f. if file_id f = fileId then change f else f) (files d)\<rparr>"

subsection \<open>What the database guarantees\<close>

text \<open>
  The primary key of \<open>FileShare\<close> and \<open>@@unique([fileId, sharedWithId])\<close>: no two rows share
  an id, and no two rows share a (file, recipient) pair. \<open>written data row\<close>: the row holds
  the columns of \<open>data\<close>.
\<close>

definition fileShare_constraints :: "db \<Rightarrow> bool" where
  "fileShare_constraints d =
     (distinct (map share_id (fileShares d)) \<and>
      distinct (map (\<lambda>s. (share_fileId s, share_sharedWithId s)) (fileShares d)))"

definition written :: "ShareData \<Rightarrow> FileShare \<Rightarrow> bool" where
  "written data row \<longleftrightarrow>
     share_fileId row = sd_fileId data \<and> share_sharedWithId row = sd_sharedWithId data \<and>
     share_encryptedKey row = sd_encryptedKey data \<and>
     share_permissions row = sd_permissions data \<and> share_expiresAt row = sd_expiresAt data \<and>
     share_isRevoked row = sd_isRevoked data \<and> share_revokedAt row = sd_revokedAt data \<and>
     share_revokedBy row = sd_revokedBy data"

section \<open>auth.ts\<close>

record AuthUser =
  au_id :: string
  au_email :: string
  au_username :: string
  au_publicKey :: string
  au_isEmailVerified :: bool
  au_isTwoFactorEnabled :: bool

text \<open>
  \<open>logAuditEvent\<close> appends a row; its own \<open>try\<close>/\<open>catch\<close> keeps it from ever throwing.
\<close>

definition logAuditEvent ::
  "db \<Rightarrow> string \<Rightarrow> string option \<Rightarrow> string option \<Rightarrow> (string \<times> string) list \<Rightarrow> bool
     \<Rightarrow> string option \<Rightarrow> db" where
  "logAuditEvent d action userId fileId details success errorMessage =
     d\<lparr>auditLogs := auditLogs d @
        [\<lparr>log_userId = userId, log_fileId = fileId, log_action = action,
          log_details = details, log_success = success, log_errorMessage = errorMessage\<rparr>]\<rparr>"

text \<open>
  \<open>split(',')\<close> and \<open>trim()\<close>: splitting the empty string gives one empty string; \<open>trim\<close>
  removes white space and line terminators at both ends.
\<close>

fun split_on :: "char \<Rightarrow> string \<Rightarrow> string list" where
  "split_on sep [] = [[]]"
| "split_on sep (c # cs) =
     (if c = sep then [] # split_on sep cs
      else (case split_on sep cs of
              [] \<Rightarrow> [[c]]
            | w # ws \<Rightarrow> (c # w) # ws))"

definition trim :: "string \<Rightarrow> string" where
  "trim s = rev (dropWhile js_whitespace (rev (dropWhile js_whitespace s)))"

datatype permission = Read | Write | Share | Delete

definition permission_name :: "permission \<Rightarrow> string" where
  "permission_name p =
     (case p of Read \<Rightarrow> ''read'' | Write \<Rightarrow> ''write'' | Share \<Rightarrow> ''share'' | Delete \<Rightarrow> ''delete'')"

definition permissionMap :: "(string \<times> string list) list" where
  "permissionMap =
     [(''read'', [''read'', ''download'', ''share'']),
      (''write'', [''write'']),
      (''share'', [''share'']),
      (''delete'', [])]"

text \<open>
  \<open>validateFilePermission\<close>. \<open>permissionMap[permission]?.includes(p)\<close> is the lookup of the
  key followed by the membership test, false when the key is absent.
\<close>

definition validateFilePermission :: "db \<Rightarrow> string \<Rightarrow> string \<Rightarrow> permission \<Rightarrow> int \<Rightarrow> bool" where
  "validateFilePermission d fileId userId permission now =
     (case file_findUnique d fileId of
        None \<Rightarrow> False
      | Some f \<Rightarrow>
          if file_ownerId f = userId then True
          else
            (case fileShare_findUnique d fileId userId of
               None \<Rightarrow> False
             | Some share \<Rightarrow>
                 if share_isRevoked share \<or>
                    (case share_expiresAt share of None \<Rightarrow> False | Some e \<Rightarrow> e < now)
                 then False
                 else
                   let userPermissions = map trim (split_on CHR '','' (share_permissions share))
                   in list_ex (\<lambda>p. case map_of permissionMap (permission_name permission) of
                                     None \<Rightarrow> False
                                   | Some granted \<Rightarrow> List.member granted p) userPermissions))"

section \<open>The route handlers\<close>

text \<open>
  What the handlers take from outside the repository is a record of functions: the
  \<open>email()\<close> and \<open>datetime()\<close> checks of the validation library (\<open>z_datetime\<close> gives the
  instant an accepted ISO 8601 string denotes, which is also what \<open>new Date\<close> makes of it),
  \<open>bcrypt.compare\<close>, and \<open>jwt.sign\<close> applied to the expiry, user id, email and session id.
\<close>

record web_prims =
  z_email :: "string \<Rightarrow> bool"
  z_datetime :: "string \<Rightarrow> int option"
  bcrypt_compare :: "string \<Rightarrow> string \<Rightarrow> bool"
  jwt_sign :: "string \<Rightarrow> string \<Rightarrow> string \<Rightarrow> string \<Rightarrow> string"

text \<open>The messages that are not plain ASCII, character by character (Latin-1).\<close>

definition msg_datos_invalidos :: string where
  "msg_datos_invalidos =
     ''Datos inv'' @ [CHR 0xE1] @ ''lidos''"

definition msg_permisos_invalidos :: string where
  "msg_permisos_invalidos =
     ''Permisos inv'' @ [CHR 0xE1] @ ''lidos''"

definition msg_ya_compartido :: string where
  "msg_ya_compartido =
     ''El archivo ya est'' @ [CHR 0xE1] @ '' compartido con este usuario''"

definition msg_clave_publica_invalida :: string where
  "msg_clave_publica_invalida =
     ''El usuario destinatario tiene una clave p'' @ [CHR 0xFA] @ ''blica inv'' @
     [CHR 0xE1] @ ''lida''"

definition msg_error_claves :: string where
  "msg_error_claves =
     ''Error procesando claves criptogr'' @ [CHR 0xE1] @ ''ficas''"

definition msg_credenciales_invalidas :: string where
  "msg_credenciales_invalidas =
     ''Credenciales inv'' @ [CHR 0xE1] @ ''lidas''"

definition msg_contrasena_invalida :: string where
  "msg_contrasena_invalida =
     ''Contrase'' @ [CHR 0xF1] @ ''a inv'' @ [CHR 0xE1] @ ''lida''"

definition msg_requiere_2fa :: string where
  "msg_requiere_2fa =
     ''Se requiere verificaci'' @ [CHR 0xF3] @ ''n de segundo factor''"

definition msg_shared_demo :: string where
  "msg_shared_demo =
     ''Este archivo fue compartido contigo pero est'' @ [CHR 0xE1] @
     '' en modo demostraci'' @ [CHR 0xF3] @
     ''n. Para descargarlo, el propietario necesitar'' @ [CHR 0xED] @
     ''a re-cifrar la clave del archivo espec'' @ [CHR 0xED] @
     ''ficamente para tu clave p'' @ [CHR 0xFA] @ ''blica RSA. Esta es una limitaci'' @
     [CHR 0xF3] @ ''n del demo - en producci'' @ [CHR 0xF3] @ ''n esto se har'' @
     [CHR 0xED] @ ''a autom'' @ [CHR 0xE1] @
     ''ticamente durante el proceso de compartir.''"

text \<open>
  A response is its HTTP status and its JSON body. The bodies the handlers send: an
  \<open>error\<close> message (with zod's \<open>details\<close> for a validation failure, which are not
  modelled), the demo refusal of the download route (\<open>error\<close>, \<open>isSharedDemo: true\<close>,
  \<open>fileName\<close>), a \<open>message\<close>, and the three success bodies.
\<close>

record ShareInfo =
  si_id :: string
  si_email :: string
  si_username :: string
  si_permissions :: "string list"
  si_expiresAt :: "int option"
  si_createdAt :: int

record DownloadInfo =
  dl_id :: string
  dl_filename :: string
  dl_mimeType :: string
  dl_size :: int
  dl_encryptedSize :: int
  dl_encryptedData :: string
  dl_encryptedKey :: string
  dl_iv :: string
  dl_authTag :: string
  dl_checksum :: string
  dl_encryptedMetadata :: "string option"

record LoginInfo =
  li_message :: string
  li_user :: AuthUser
  li_sessionId :: string
  li_accessToken :: string
  li_refreshToken :: string
  li_encryptedPrivateKey :: string
  li_salt :: string
  li_requires2FA :: bool

datatype body =
    ErrorBody string
  | ValidationErrorBody string
  | SharedDemoBody string string
  | MessageBody string
  | ShareBody string ShareInfo
  | DownloadBody DownloadInfo
  | LoginBody LoginInfo

datatype response = Response (status: nat) (payload: body)

subsection \<open>\<open>POST /api/files/[id]/share\<close>\<close>

record ShareRequest =
  sr_userEmail :: string
  sr_permissions :: "string list"
  sr_expiresAt :: "string option"

definition shareSchema_safeParse :: "web_prims \<Rightarrow> ShareRequest \<Rightarrow> bool" where
  "shareSchema_safeParse W req =
     (z_email W (sr_userEmail req) \<and>
      list_all (\<lambda>p. List.member [''read'', ''download'', ''share''] p) (sr_permissions req) \<and>
      1 \<le> length (sr_permissions req) \<and>
      (case sr_expiresAt req of None \<Rightarrow> True | Some s \<Rightarrow> z_datetime W s \<noteq> None))"

text \<open>\<open>expiresAt ? new Date(expiresAt) : null\<close>\<close>

definition expiresAt_date :: "web_prims \<Rightarrow> string option \<Rightarrow> int option" where
  "expiresAt_date W expiresAt =
     (case expiresAt of None \<Rightarrow> None | Some s \<Rightarrow> if s = [] then None else z_datetime W s)"

text \<open>\<open>permissions.join(',')\<close>\<close>

fun join_comma :: "string list \<Rightarrow> string" where
  "join_comma [] = []"
| "join_comma [p] = p"
| "join_comma (p # q # ps) = p @ '','' @ join_comma (q # ps)"

text \<open>
  The handler. \<open>auth\<close> is what \<open>getAuthenticatedUser\<close> found for the request; without a
  user \<open>requireAuth\<close> throws and the outer \<open>catch\<close> answers 500. \<open>newId\<close> is the \<open>cuid\<close> a
  created row gets. The inner \<open>try\<close> holds the import of the recipient's key and the
  \<open>update\<close> or \<open>create\<close> of the object \<open>shareData\<close>; whatever they throw is answered by
  its \<open>catch\<close>.
\<close>

definition shareData :: "web_prims \<Rightarrow> AuthUser \<Rightarrow> string \<Rightarrow> File \<Rightarrow> User \<Rightarrow> ShareRequest \<Rightarrow> ShareData" where
  "shareData W user fileId f targetUser req =
     (let reEncryptedKey = ''DEMO_'' @ file_encryptedKey f
      in \<lparr>sd_fileId = fileId,
          sd_sharedWithId = user_id targetUser,
          sd_sharedById = au_id user,
          sd_encryptedKey = reEncryptedKey,
          sd_permissions = join_comma (sr_permissions req),
          sd_expiresAt = expiresAt_date W (sr_expiresAt req),
          sd_isRevoked = False,
          sd_revokedAt = None,
          sd_revokedBy = None\<rparr>)"

definition POST_share ::
  "crypto_prims \<Rightarrow> web_prims \<Rightarrow> db \<Rightarrow> AuthUser option \<Rightarrow> string \<Rightarrow> ShareRequest \<Rightarrow> int \<Rightarrow> string
     \<Rightarrow> response \<times> db" where
  "POST_share P W d auth fileId req now newId =
     (case auth of
        None \<Rightarrow>
          (Response 500 (ErrorBody ''Error interno del servidor''),
           logAuditEvent d ''file_share_error'' None (Some fileId)
             [(''error'', ''No autorizado'')] False (Some ''No autorizado''))
      | Some user \<Rightarrow>
          if \<not> shareSchema_safeParse W req
          then (Response 400 (ValidationErrorBody msg_datos_invalidos), d)
          else
            let userEmail = sr_userEmail req;
                permissions = sr_permissions req
            in
            if \<not> validateSharePermissions permissions
            then (Response 400 (ErrorBody msg_permisos_invalidos), d)
            else
              (case file_findUnique d fileId of
                 None \<Rightarrow> (Response 404 (ErrorBody ''Archivo no encontrado''), d)
               | Some f \<Rightarrow>
                   if file_ownerId f \<noteq> au_id user
                   then (Response 403 (ErrorBody ''Solo el propietario puede compartir el archivo''), d)
                   else if file_isDeleted f
                   then (Response 410 (ErrorBody ''No se puede compartir un archivo eliminado''), d)
                   else
                     (case user_findUnique_email d userEmail of
                        None \<Rightarrow> (Response 404 (ErrorBody ''Usuario destinatario no encontrado''), d)
                      | Some targetUser \<Rightarrow>
                          if user_id targetUser = au_id user
                          then (Response 400
                                  (ErrorBody ''No puedes compartir un archivo contigo mismo''), d)
                          else
                            let existingShare = fileShare_findUnique d fileId (user_id targetUser)
                            in
                            if (case existingShare of
                                  None \<Rightarrow> False
                                | Some s \<Rightarrow> \<not> share_isRevoked s)
                            then (Response 409 (ErrorBody msg_ya_compartido), d)
                            else if \<not> validatePublicKey P (user_publicKey targetUser)
                            then (Response 400 (ErrorBody msg_clave_publica_invalida), d)
                            else
                              (case
                                 bindE (importPublicKeyFromPEM P (user_publicKey targetUser))
                                   (\<lambda>imported.
                                      case existingShare of
                                        Some s \<Rightarrow>
                                          fileShare_update d (share_id s)
                                            (shareData W user fileId f targetUser req) now
                                      | None \<Rightarrow>
                                          fileShare_create d newId
                                            (shareData W user fileId f targetUser req) now)
                               of
                                 Inl cryptoError \<Rightarrow> (Response 500 (ErrorBody msg_error_claves), d)
                               | Inr (share, d') \<Rightarrow>
                                   (Response 201
                                      (ShareBody ''Archivo compartido exitosamente''
                                         \<lparr>si_id = share_id share,
                                          si_email = user_email targetUser,
                                          si_username = user_username targetUser,
                                          si_permissions = permissions,
                                          si_expiresAt = share_expiresAt share,
                                          si_createdAt = share_createdAt share\<rparr>),
                                    logAuditEvent d' ''file_share'' (Some (au_id user)) (Some fileId)
                                      [(''action'', ''file_share''),
                                       (''fileId'', fileId),
                                       (''ownerEmail'', au_email user),
                                       (''targetEmail'', user_email targetUser),
                                       (''permissions'', join_comma permissions),
                                       (''shareMethod'', ''e2ee_reencrypt''),
                                       (''filename'', file_filename f),
                                       (''shareId'', share_id share),
                                       (''isUpdate'',
                                        if existingShare = None then ''false'' else ''true'')]
                                      True None)))))"

subsection \<open>\<open>DELETE /api/files/[id]\<close>\<close>

definition DELETE_file :: "db \<Rightarrow> AuthUser option \<Rightarrow> string \<Rightarrow> int \<Rightarrow> response \<times> db" where
  "DELETE_file d auth fileId now =
     (case auth of
        None \<Rightarrow>
          (Response 500 (ErrorBody ''Error interno del servidor''),
           logAuditEvent d ''file_delete_error'' None (Some fileId)
             [(''error'', ''No autorizado'')] False (Some ''No autorizado''))
      | Some user \<Rightarrow>
          (case file_findUnique d fileId of
             None \<Rightarrow> (Response 404 (ErrorBody ''Archivo no encontrado''), d)
           | Some f \<Rightarrow>
               if file_ownerId f \<noteq> au_id user
               then (Response 403 (ErrorBody ''Solo el propietario puede eliminar el archivo''), d)
               else if file_isDeleted f
               then (Response 410 (ErrorBody (''El archivo ya est'' @ [CHR 0xE1] @ '' eliminado'')), d)
               else
                 let d1 = file_update d fileId
                            (\<lambda>old. old\<lparr>file_isDeleted := True, file_deletedAt := Some now\<rparr>);
                     d2 = fileShare_updateMany d1 fileId
                            (\<lambda>old. old\<lparr>share_isRevoked := True,
                                        share_revokedAt := Some now,
                                        share_revokedBy := Some (au_id user),
                                        share_updatedAt := now\<rparr>);
                     d3 = logAuditEvent d2 ''file_delete'' (Some (au_id user)) (Some fileId)
                            [(''filename'', file_filename f)] True None
                 in (Response 200 (MessageBody ''Archivo eliminado exitosamente''), d3)))"

subsection \<open>\<open>GET /api/files/[id]/download\<close>\<close>

text \<open>\<open>startsWith\<close>\<close>

definition startsWith :: "string \<Rightarrow> string \<Rightarrow> bool" where
  "startsWith s pre = (take (length pre) s = pre)"

definition GET_download :: "db \<Rightarrow> AuthUser option \<Rightarrow> string \<Rightarrow> int \<Rightarrow> response \<times> db" where
  "GET_download d auth fileId now =
     (case auth of
        None \<Rightarrow>
          (Response 500 (ErrorBody ''Error interno del servidor''),
           logAuditEvent d ''file_download_error'' None (Some fileId)
             [(''error'', ''No autorizado'')] False (Some ''No autorizado''))
      | Some user \<Rightarrow>
          let hasPermission = validateFilePermission d fileId (au_id user) Read now
          in
          if \<not> hasPermission
          then (Response 403 (ErrorBody ''No tienes permisos para descargar este archivo''),
                logAuditEvent d ''file_download_denied'' (Some (au_id user)) (Some fileId)
                  [(''reason'', ''insufficient_permissions'')] False
                  (Some ''Permisos insuficientes''))
          else
            (case file_findUnique d fileId of
               None \<Rightarrow> (Response 404 (ErrorBody ''Archivo no encontrado''), d)
             | Some f \<Rightarrow>
                 if file_isDeleted f
                 then (Response 410 (ErrorBody ''Archivo eliminado''), d)
                 else
                   let send = (\<lambda>encryptedKey.
                         (Response 200
                            (DownloadBody
                               \<lparr>dl_id = file_id f,
                                dl_filename = file_filename f,
                                dl_mimeType = file_mimeType f,
                                dl_size = file_size f,
                                dl_encryptedSize = file_encryptedSize f,
                                dl_encryptedData = arrayBufferToBase64 (file_encryptedData f),
                                dl_encryptedKey = encryptedKey,
                                dl_iv = file_iv f,
                                dl_authTag = file_authTag f,
                                dl_checksum = file_checksum f,
                                dl_encryptedMetadata = file_encryptedMetadata f\<rparr>),
                          logAuditEvent d ''file_download'' (Some (au_id user)) (Some fileId)
                            [(''filename'', file_filename f),
                             (''isOwner'',
                              if file_ownerId f = au_id user then ''true'' else ''false'')]
                            True None))
                   in
                   if file_ownerId f \<noteq> au_id user
                   then
                     (case fileShare_findUnique d fileId (au_id user) of
                        None \<Rightarrow>
                          (Response 403 (ErrorBody ''Acceso al archivo revocado o expirado''), d)
                      | Some share \<Rightarrow>
                          if share_isRevoked share \<or>
                             (case share_expiresAt share of None \<Rightarrow> False | Some e \<Rightarrow> e < now)
                          then (Response 403 (ErrorBody ''Acceso al archivo revocado o expirado''), d)
                          else if startsWith (share_encryptedKey share) ''DEMO_''
                          then (Response 501 (SharedDemoBody msg_shared_demo (file_filename f)), d)
                          else send (share_encryptedKey share))
                   else send (file_encryptedKey f)))"

subsection \<open>\<open>POST /api/auth/login\<close>\<close>

record LoginRequest =
  lr_email :: string
  lr_password :: string

definition loginSchema_safeParse :: "web_prims \<Rightarrow> LoginRequest \<Rightarrow> bool" where
  "loginSchema_safeParse W req = (z_email W (lr_email req) \<and> 1 \<le> length (lr_password req))"

definition verifyPassword :: "web_prims \<Rightarrow> string \<Rightarrow> string \<Rightarrow> bool" where
  "verifyPassword W password hash = bcrypt_compare W password hash"

text \<open>
  \<open>createSession\<close>: \<open>newId\<close> and \<open>token\<close> are the \<open>cuid\<close> and the random session token of the
  created row, both unique columns.
\<close>

definition createSession ::
  "web_prims \<Rightarrow> db \<Rightarrow> string \<Rightarrow> int \<Rightarrow> string \<Rightarrow> string
     \<Rightarrow> error + ((string \<times> string \<times> string) \<times> db)" where
  "createSession W d userId now newId token =
     (let expiresAt = now + 7 * 24 * 60 * 60 * 1000
      in if list_ex (\<lambda>s. session_id s = newId \<or> session_sessionToken s = token) (sessions d)
         then Inl UniqueConstraintViolation
         else
           let d1 = d\<lparr>sessions := sessions d @
                        [\<lparr>session_id = newId, session_userId = userId,
                          session_sessionToken = token, session_accessToken = None,
                          session_refreshToken = None, session_expiresAt = expiresAt\<rparr>]\<rparr>
           in case user_findUnique_id d1 userId of
                None \<Rightarrow> Inl (Error ''Usuario no encontrado'')
              | Some user \<Rightarrow>
                  let accessToken = jwt_sign W ''15m'' (user_id user) (user_email user) newId;
                      refreshToken = jwt_sign W ''7d'' (user_id user) (user_email user) newId;
                      d2 = d1\<lparr>sessions :=
                                 map (\<lambda>s. if session_id s = newId
                                           then s\<lparr>session_accessToken := Some accessToken,
                                                  session_refreshToken := Some refreshToken\<rparr>
                                           else s) (sessions d1)\<rparr>
                  in Inr ((newId, accessToken, refreshToken), d2))"

text \<open>
  \<open>error.message\<close> of what the \<open>catch\<close> receives: the text of a plain \<open>Error\<close>; the
  wording of the other errors is not modelled and stands as their name.
\<close>

definition error_message :: "error \<Rightarrow> string" where
  "error_message e =
     (case e of
        Error m \<Rightarrow> m
      | UniqueConstraintViolation \<Rightarrow> ''UniqueConstraintViolation''
      | RecordNotFound \<Rightarrow> ''RecordNotFound''
      | JsonSyntaxError \<Rightarrow> ''SyntaxError''
      | TypeError \<Rightarrow> ''TypeError''
      | _ \<Rightarrow> ''DOMException'')"

definition POST_login ::
  "web_prims \<Rightarrow> db \<Rightarrow> LoginRequest \<Rightarrow> int \<Rightarrow> string \<Rightarrow> string \<Rightarrow> response \<times> db" where
  "POST_login W d req now newId token =
     (if \<not> loginSchema_safeParse W req
      then (Response 400 (ValidationErrorBody msg_datos_invalidos), d)
      else
        let email = lr_email req; password = lr_password req
        in
        case user_findUnique_email d email of
          None \<Rightarrow>
            (Response 401 (ErrorBody msg_credenciales_invalidas),
             logAuditEvent d ''login_attempt'' None None
               [(''email'', email), (''reason'', ''user_not_found'')] False
               (Some ''Usuario no encontrado''))
        | Some user \<Rightarrow>
            let isPasswordValid = verifyPassword W password (user_passwordHash user)
            in
            if \<not> isPasswordValid
            then (Response 401 (ErrorBody msg_credenciales_invalidas),
                  logAuditEvent d ''login_attempt'' (Some (user_id user)) None
                    [(''email'', email), (''reason'', ''invalid_password'')] False
                    (Some msg_contrasena_invalida))
            else
              (case createSession W d (user_id user) now newId token of
                 Inl e \<Rightarrow>
                   (Response 500 (ErrorBody ''Error interno del servidor''),
                    logAuditEvent d ''login_error'' None None
                      [(''error'', error_message e)] False (Some (error_message e)))
               | Inr ((sessionId, accessToken, refreshToken), d1) \<Rightarrow>
                   let d2 = d1\<lparr>users :=
                                 map (\<lambda>u. if user_id u = user_id user
                                           then u\<lparr>user_lastLoginAt := Some now\<rparr> else u)
                                     (users d1)\<rparr>;
                       d3 = logAuditEvent d2 ''user_login'' (Some (user_id user)) None
                              [(''email'', email), (''sessionId'', sessionId)] True None;
                       info = \<lparr>li_message = ''Login exitoso'',
                               li_user = \<lparr>au_id = user_id user,
                                          au_email = user_email user,
                                          au_username = user_username user,
                                          au_publicKey = user_publicKey user,
                                          au_isEmailVerified = user_isEmailVerified user,
                                          au_isTwoFactorEnabled = user_isTwoFactorEnabled user\<rparr>,
                               li_sessionId = sessionId,
                               li_accessToken = accessToken,
                               li_refreshToken = refreshToken,
                               li_encryptedPrivateKey = user_encryptedPrivateKey user,
                               li_salt = user_salt user,
                               li_requires2FA = False\<rparr>
                   in
                   if user_isTwoFactorEnabled user
                   then (Response 200
                           (LoginBody (info\<lparr>li_requires2FA := True,
                                             li_message := msg_requiere_2fa\<rparr>)), d3)
                   else (Response 200 (LoginBody info), d3)))"

section \<open>What is assumed of the platform's algorithms\<close>

text \<open>
  \<open>rsa_key_pair P pub priv\<close>: the two key materials match, that is RSA-OAEP decryption
  under \<open>priv\<close> undoes encryption under \<open>pub\<close> for every seed and every message that fits
  a 2048-bit modulus with SHA-256 (at most 190 bytes). \<open>aes_gcm_correct\<close>: AES-GCM
  decryption undoes encryption under the same 256-bit key and 96-bit IV.
\<close>

definition rsa_key_pair :: "crypto_prims \<Rightarrow> bytes \<Rightarrow> bytes \<Rightarrow> bool" where
  "rsa_key_pair P pub priv =
     (\<forall>seed m. length m \<le> 190 \<longrightarrow>
        (\<exists>c. rsa_oaep_encrypt P pub seed m = Some c \<and> rsa_oaep_decrypt P priv c = Some m))"

definition aes_gcm_correct :: "crypto_prims \<Rightarrow> bool" where
  "aes_gcm_correct P =
     (\<forall>k iv p. length k = 32 \<and> length iv = 12 \<longrightarrow>
        aes_gcm_decrypt P k iv (aes_gcm_encrypt P k iv p) = Some p)"

text \<open>
  An identity key pair: an RSA-OAEP public key usable for \<open>encrypt\<close> and the matching
  private key usable for \<open>decrypt\<close>. The pair \<open>generateRSAKeyPair\<close> returns is one, and so
  are its re-imported halves (\<open>importPublicKeyFromPEM\<close>, \<open>decryptPrivateKey\<close>), which
  differ in \<open>extractable\<close> only.
\<close>

definition identity_key_pair :: "crypto_prims \<Rightarrow> KeyPair \<Rightarrow> bool" where
  "identity_key_pair P K =
     (keyType (kp_publicKey K) = KPublic \<and> algorithm (kp_publicKey K) = RSA_OAEP \<and>
      UEncrypt \<in> set (usages (kp_publicKey K)) \<and>
      keyType (kp_privateKey K) = KPrivate \<and> algorithm (kp_privateKey K) = RSA_OAEP \<and>
      UDecrypt \<in> set (usages (kp_privateKey K)) \<and>
      rsa_key_pair P (material (kp_publicKey K)) (material (kp_privateKey K)))"

section \<open>A small concrete platform\<close>

text \<open>
  Stand-ins for the algorithms, simple enough to run by hand, on which the statements
  below are exercised: the RSA stand-in prefixes the message with the key material and
  checks the prefix on decryption; the AES-GCM stand-in appends a 16-byte tag made of
  key and IV; the hash is the length and the byte sum.
\<close>

definition toy_rsa_keygen :: "nat \<Rightarrow> bytes \<times> bytes" where
  "toy_rsa_keygen seed = ([of_nat seed], [of_nat seed])"

definition toy_rsa_encrypt :: "bytes \<Rightarrow> nat \<Rightarrow> bytes \<Rightarrow> bytes option" where
  "toy_rsa_encrypt pub seed m = (if length m \<le> 190 then Some (pub @ m) else None)"

definition toy_rsa_decrypt :: "bytes \<Rightarrow> bytes \<Rightarrow> bytes option" where
  "toy_rsa_decrypt priv c =
     (if take (length priv) c = priv then Some (drop (length priv) c) else None)"

definition toy_tag :: "bytes \<Rightarrow> bytes \<Rightarrow> bytes" where
  "toy_tag k iv = take 16 (k @ iv @ [0, 0, 0, 0, 0, 0, 0, 0, 0, 0, 0, 0, 0, 0, 0, 0])"

definition toy_aes_encrypt :: "bytes \<Rightarrow> bytes \<Rightarrow> bytes \<Rightarrow> bytes" where
  "toy_aes_encrypt k iv p = p @ toy_tag k iv"

definition toy_aes_decrypt :: "bytes \<Rightarrow> bytes \<Rightarrow> bytes \<Rightarrow> bytes option" where
  "toy_aes_decrypt k iv c =
     (if 16 \<le> length c \<and> drop (length c - 16) c = toy_tag k iv
      then Some (take (length c - 16) c) else None)"

definition toy_sha256 :: "bytes \<Rightarrow> bytes" where
  "toy_sha256 d = [of_nat (length d), sum_list d]"

definition toy_spki_parse :: "bytes \<Rightarrow> bytes option" where
  "toy_spki_parse d = (if d = [] then None else Some d)"

definition toy :: crypto_prims where
  "toy = \<lparr>rsa_keygen = toy_rsa_keygen,
          rsa_oaep_encrypt = toy_rsa_encrypt,
          rsa_oaep_decrypt = toy_rsa_decrypt,
          aes_gcm_encrypt = toy_aes_encrypt,
          aes_gcm_decrypt = toy_aes_decrypt,
          sha256 = toy_sha256,
          spki_parse = toy_spki_parse\<rparr>"

definition toy_key32 :: bytes where
  "toy_key32 = [11, 48, 85, 122, 159, 196, 233, 14, 51, 88, 125, 162, 199, 236, 17, 54,
                91, 128, 165, 202, 239, 20, 57, 94, 131, 168, 205, 242, 23, 60, 97, 134]"

definition toy_entropy :: entropy where
  "toy_entropy = \<lparr>aes_key_random = toy_key32, iv_random = [2, 2, 2, 2, 2, 2, 2, 2, 2, 2, 2, 2], oaep_seed = 5\<rparr>"

definition toy_pem :: string where
  "toy_pem = ''-----BEGIN PUBLIC KEY-----\<newline>CQ==\<newline>-----END PUBLIC KEY-----''"

text \<open>
  A stored file on the small platform: the plaintext \<open>[104, 105]\<close> encrypted by
  \<open>encryptFile toy toy_entropy\<close> for the owner \<open>generateRSAKeyPair toy 7\<close>, every field
  in base64; the same record with another checksum; the same record with its key wrapped
  for the pair of seed 8.
\<close>

definition toy_file :: EncryptedFileData where
  "toy_file = EncryptedFileData ''aGk='' ''BwswVXqfxOkOM1h9osfsETZbgKXK7xQ5XoOozfIXPGGG''
     ''AgICAgICAgICAgIC'' ''CzBVep/E6Q4zWH2ix+wRNg=='' ''02d1'' None"

definition toy_file_tampered :: EncryptedFileData where
  "toy_file_tampered = EncryptedFileData ''aGk='' ''BwswVXqfxOkOM1h9osfsETZbgKXK7xQ5XoOozfIXPGGG''
     ''AgICAgICAgICAgIC'' ''CzBVep/E6Q4zWH2ix+wRNg=='' ''0000'' None"

definition toy_file_other_key :: EncryptedFileData where
  "toy_file_other_key = EncryptedFileData ''aGk='' ''CAswVXqfxOkOM1h9osfsETZbgKXK7xQ5XoOozfIXPGGG''
     ''AgICAgICAgICAgIC'' ''CzBVep/E6Q4zWH2ix+wRNg=='' ''02d1'' None"

text \<open>
  A parser that knows two JSON texts, \<open>null\<close> and \<open>{"mimeType":"Text/Plain"}\<close>, and rejects
  every other input; numbers are naturals, written in decimal. Two copies of the stored
  file carry encrypted metadata: one that decrypts to the text \<open>null\<close>, one that decrypts
  to the object.
\<close>

definition toy_parseJson :: "bytes \<Rightarrow> nat json option" where
  "toy_parseJson b =
     (if b = [110, 117, 108, 108] then Some JNull
      else if b = [123, 34, 109, 105, 109, 101, 84, 121, 112, 101, 34, 58, 34, 84, 101, 120,
                   116, 47, 80, 108, 97, 105, 110, 34, 125]
      then Some (JObject [(''mimeType'', JString ''Text/Plain'')])
      else None)"

fun toy_decimal :: "nat \<Rightarrow> string" where
  "toy_decimal n =
     (if n < 10 then [''0123456789'' ! n]
      else toy_decimal (n div 10) @ [''0123456789'' ! (n mod 10)])"

definition toy_metadata_null :: EncryptedFileData where
  "toy_metadata_null = EncryptedFileData ''bnVsbA=='' ''BwswVXqfxOkOM1h9osfsETZbgKXK7xQ5XoOozfIXPGGG''
     ''AgICAgICAgICAgIC'' ''CzBVep/E6Q4zWH2ix+wRNg=='' [] None"

definition toy_metadata_object :: EncryptedFileData where
  "toy_metadata_object = EncryptedFileData ''eyJtaW1lVHlwZSI6IlRleHQvUGxhaW4ifQ==''
     ''BwswVXqfxOkOM1h9osfsETZbgKXK7xQ5XoOozfIXPGGG''
     ''AgICAgICAgICAgIC'' ''CzBVep/E6Q4zWH2ix+wRNg=='' [] None"

definition toy_file_null_metadata :: EncryptedFileData where
  "toy_file_null_metadata = EncryptedFileData ''aGk='' ''BwswVXqfxOkOM1h9osfsETZbgKXK7xQ5XoOozfIXPGGG''
     ''AgICAgICAgICAgIC'' ''CzBVep/E6Q4zWH2ix+wRNg=='' ''02d1'' (Some toy_metadata_null)"

definition toy_file_with_metadata :: EncryptedFileData where
  "toy_file_with_metadata = EncryptedFileData ''aGk='' ''BwswVXqfxOkOM1h9osfsETZbgKXK7xQ5XoOozfIXPGGG''
     ''AgICAgICAgICAgIC'' ''CzBVep/E6Q4zWH2ix+wRNg=='' ''02d1'' (Some toy_metadata_object)"

text \<open>
  An \<open>EncryptedFile\<close> whose ciphertext, wrapped key, IV and tag are those of the plaintext
  \<open>[104, 105]\<close> and whose stored checksum is not the digest of that plaintext.
\<close>

definition toy_encrypted_tampered :: EncryptedFile where
  "toy_encrypted_tampered =
     \<lparr>ef_encryptedData = [104, 105],
      ef_encryptedKey = 7 # toy_key32,
      ef_iv = [2, 2, 2, 2, 2, 2, 2, 2, 2, 2, 2, 2],
      ef_authTag = take 16 toy_key32,
      ef_checksum = ''0000''\<rparr>"

text \<open>
  A small database: Alice owns the file \<open>f1\<close> (the stored file above); Bob and Carol are
  other users. \<open>toy_db\<close> has no share; in \<open>toy_db_shared\<close> Bob holds an active share of
  \<open>f1\<close> that grants \<open>download\<close> only, and Carol one that expired at instant 500.
\<close>

definition toy_web :: web_prims where
  "toy_web =
     \<lparr>z_email = (\<lambda>s. List.member s CHR ''@''),
      z_datetime = (\<lambda>s. if s = ''2030-01-01T00:00:00.000Z'' then Some 1893456000000 else None),
      bcrypt_compare = (\<lambda>password hash. hash = ''h:'' @ password),
      jwt_sign = (\<lambda>expiry userId email sessionId. expiry @ ''.'' @ userId @ ''.'' @ sessionId)\<rparr>"

definition toy_user :: "string \<Rightarrow> string \<Rightarrow> string \<Rightarrow> User" where
  "toy_user name password pem =
     \<lparr>user_id = ''u_'' @ name,
      user_email = name @ ''@example.com'',
      user_username = name,
      user_passwordHash = ''h:'' @ password,
      user_salt = ''c2FsdA=='',
      user_publicKey = pem,
      user_encryptedPrivateKey = ''e30='',
      user_isEmailVerified = True,
      user_isTwoFactorEnabled = False,
      user_lastLoginAt = None\<rparr>"

definition toy_auth :: "string \<Rightarrow> string \<Rightarrow> AuthUser" where
  "toy_auth name pem =
     \<lparr>au_id = ''u_'' @ name,
      au_email = name @ ''@example.com'',
      au_username = name,
      au_publicKey = pem,
      au_isEmailVerified = True,
      au_isTwoFactorEnabled = False\<rparr>"

definition toy_pem_alice :: string where
  "toy_pem_alice = ''-----BEGIN PUBLIC KEY-----\<newline>Bw==\<newline>-----END PUBLIC KEY-----''"

definition toy_f1 :: File where
  "toy_f1 =
     \<lparr>file_id = ''f1'',
      file_filename = ''report.pdf'',
      file_mimeType = ''application/pdf'',
      file_size = 2,
      file_encryptedSize = 2,
      file_encryptedData = [104, 105],
      file_encryptedKey = ''BwswVXqfxOkOM1h9osfsETZbgKXK7xQ5XoOozfIXPGGG'',
      file_iv = ''AgICAgICAgICAgIC'',
      file_authTag = ''CzBVep/E6Q4zWH2ix+wRNg=='',
      file_checksum = ''02d1'',
      file_ownerId = ''u_alice'',
      file_isDeleted = False,
      file_deletedAt = None,
      file_encryptedMetadata = None\<rparr>"

definition toy_db :: db where
  "toy_db =
     \<lparr>users = [toy_user ''alice'' ''correct-horse'' toy_pem_alice,
               toy_user ''bob'' ''hunter2'' toy_pem,
               toy_user ''carol'' ''s3cret'' toy_pem],
      sessions = [],
      files = [toy_f1],
      fileShares = [],
      auditLogs = []\<rparr>"

definition toy_share :: "string \<Rightarrow> string \<Rightarrow> string \<Rightarrow> int option \<Rightarrow> FileShare" where
  "toy_share shareId name permissions expiresAt =
     \<lparr>share_id = shareId,
      share_fileId = ''f1'',
      share_sharedWithId = ''u_'' @ name,
      share_sharedById = ''u_alice'',
      share_encryptedKey = ''DEMO_BwswVXqfxOkOM1h9osfsETZbgKXK7xQ5XoOozfIXPGGG'',
      share_permissions = permissions,
      share_expiresAt = expiresAt,
      share_isRevoked = False,
      share_revokedAt = None,
      share_revokedBy = None,
      share_createdAt = 100,
      share_updatedAt = 100\<rparr>"

definition toy_db_shared :: db where
  "toy_db_shared =
     toy_db\<lparr>fileShares := [toy_share ''s1'' ''bob'' ''download'' None,
                             toy_share ''s2'' ''carol'' ''read,download'' (Some 500)]\<rparr>"

text \<open>
  Two share requests by Alice for Bob, and the database after the first: \<open>toy_db1\<close>.
  In \<open>toy_db_revoked\<close> Bob's share of \<open>f1\<close> has been revoked.
\<close>

definition toy_request1 :: ShareRequest where
  "toy_request1 =
     \<lparr>sr_userEmail = ''bob@example.com'', sr_permissions = [''download''], sr_expiresAt = None\<rparr>"

definition toy_request2 :: ShareRequest where
  "toy_request2 =
     \<lparr>sr_userEmail = ''bob@example.com'', sr_permissions = [''read''],
      sr_expiresAt = Some ''2030-01-01T00:00:00.000Z''\<rparr>"

definition toy_db1 :: db where
  "toy_db1 =
     snd (POST_share toy toy_web toy_db (Some (toy_auth ''alice'' toy_pem_alice)) ''f1''
            toy_request1 100 ''s1'')"


section \<open>Theorems\<close>

lemma bindE_simps:
  "bindE (Inl e) f = Inl e"
  "bindE (Inr v) f = f v"
  by (simp_all add: bindE_def)

lemma toy_sel:
  "rsa_keygen toy = toy_rsa_keygen"
  "rsa_oaep_encrypt toy = toy_rsa_encrypt"
  "rsa_oaep_decrypt toy = toy_rsa_decrypt"
  "aes_gcm_encrypt toy = toy_aes_encrypt"
  "aes_gcm_decrypt toy = toy_aes_decrypt"
  "sha256 toy = toy_sha256"
  "spki_parse toy = toy_spki_parse"
  by (simp_all add: toy_def)

lemma toy_rsa_pair: "rsa_key_pair toy k k"
  by (simp add: rsa_key_pair_def toy_sel toy_rsa_encrypt_def toy_rsa_decrypt_def)

lemma toy_tag_length: "length (toy_tag k iv) = 16"
  by (simp add: toy_tag_def)

lemma toy_aes_correct: "aes_gcm_correct toy"
  by (simp add: aes_gcm_correct_def toy_sel toy_aes_encrypt_def toy_aes_decrypt_def toy_tag_length)

lemma generateRSAKeyPair_identity:
  "rsa_key_pair P (fst (rsa_keygen P seed)) (snd (rsa_keygen P seed)) \<Longrightarrow>
   identity_key_pair P (generateRSAKeyPair P seed)"
  by (simp add: identity_key_pair_def generateRSAKeyPair_def)

lemma toy_identity: "identity_key_pair toy (generateRSAKeyPair toy 7)"
  by (rule generateRSAKeyPair_identity) (simp add: toy_sel toy_rsa_keygen_def toy_rsa_pair)

lemma encryptWithAES_decryptWithAES:
  assumes "aes_gcm_correct P" "algorithm key = AES_GCM" "UEncrypt \<in> set (usages key)"
    "UDecrypt \<in> set (usages key')" "algorithm key' = AES_GCM" "material key' = material key"
    "length (material key) = 32" "length iv = 12"
  shows "\<exists>e. encryptWithAES P iv data key = Inr e \<and>
     decryptWithAES P (ed_encryptedData e) key' (ed_iv e) (ed_authTag e) = Inr data"
  using assms
  by (simp add: encryptWithAES_def decryptWithAES_def subtle_encrypt_AES_GCM_def
      subtle_decrypt_AES_GCM_def bindE_simps aes_gcm_correct_def Let_def)

lemma encryptKeyWithRSA_decryptKeyWithRSA:
  assumes "identity_key_pair P K" "extractable aesKey" "algorithm aesKey = AES_GCM"
    "length (material aesKey) = 32"
  shows "\<exists>w. encryptKeyWithRSA P seed aesKey (kp_publicKey K) = Inr w \<and>
     decryptKeyWithRSA P w (kp_privateKey K) =
       Inr \<lparr>keyType = KSecret, algorithm = AES_GCM, extractable = False,
            usages = [UEncrypt, UDecrypt], material = material aesKey\<rparr>"
proof -
  from assms(1) have pair: "rsa_key_pair P (material (kp_publicKey K)) (material (kp_privateKey K))"
    by (simp add: identity_key_pair_def)
  from assms(4) have "length (material aesKey) \<le> 190" by simp
  with pair obtain c where
    c: "rsa_oaep_encrypt P (material (kp_publicKey K)) seed (material aesKey) = Some c"
       "rsa_oaep_decrypt P (material (kp_privateKey K)) c = Some (material aesKey)"
    unfolding rsa_key_pair_def by blast
  show ?thesis
    using assms c
    by (simp add: encryptKeyWithRSA_def decryptKeyWithRSA_def subtle_exportKey_raw_def
        subtle_encrypt_RSA_OAEP_def subtle_decrypt_RSA_OAEP_def subtle_importKey_raw_AES_def
        bindE_simps identity_key_pair_def)
qed


text \<open>
  C3. Round trip: for every plaintext and every identity key pair, \<open>encryptFile\<close> under the
  public key succeeds, and \<open>decryptFile\<close> of its output under the private key returns
  exactly the plaintext. The platform's RSA-OAEP and AES-GCM are assumed correct;
  \<open>generateAESKey\<close> draws 32 bytes and \<open>encryptWithAES\<close> a 12-byte IV, as the code asks.
\<close>

theorem encryptFile_decryptFile_roundtrip:
  assumes K: "identity_key_pair P K"
    and aes: "aes_gcm_correct P"
    and rnd: "length (aes_key_random rnd) = 32" "length (iv_random rnd) = 12"
  shows "\<exists>ef. encryptFile P rnd fileData (kp_publicKey K) = Inr ef \<and>
     decryptFile P (ef_encryptedData ef) (ef_encryptedKey ef) (ef_iv ef) (ef_authTag ef)
       (kp_privateKey K) = Inr fileData"
proof -
  let ?aesKey = "generateAESKey (aes_key_random rnd)"
  let ?aesKey' = "\<lparr>keyType = KSecret, algorithm = AES_GCM, extractable = False,
            usages = [UEncrypt, UDecrypt], material = material ?aesKey\<rparr>"
  have k: "extractable ?aesKey" "algorithm ?aesKey = AES_GCM"
    "length (material ?aesKey) = 32" "UEncrypt \<in> set (usages ?aesKey)"
    using rnd by (simp_all add: generateAESKey_def subtle_generateKey_AES_def)
  obtain w where w: "encryptKeyWithRSA P (oaep_seed rnd) ?aesKey (kp_publicKey K) = Inr w"
    "decryptKeyWithRSA P w (kp_privateKey K) = Inr ?aesKey'"
    using encryptKeyWithRSA_decryptKeyWithRSA [OF K k(1) k(2) k(3)] by blast
  obtain e where e: "encryptWithAES P (iv_random rnd) fileData ?aesKey = Inr e"
    "decryptWithAES P (ed_encryptedData e) ?aesKey' (ed_iv e) (ed_authTag e) = Inr fileData"
    using encryptWithAES_decryptWithAES [OF aes k(2) k(4) _ _ _ k(3) rnd(2), of ?aesKey']
    by auto
  show ?thesis
    using w e by (simp add: encryptFile_def decryptFile_def bindE_simps Let_def)
qed

theorem encryptFile_decryptFile_roundtrip_witness:
  "identity_key_pair toy (generateRSAKeyPair toy 7) \<and> aes_gcm_correct toy \<and>
   length (aes_key_random toy_entropy) = 32 \<and> length (iv_random toy_entropy) = 12 \<and>
   (\<exists>ef. encryptFile toy toy_entropy [104, 105] (kp_publicKey (generateRSAKeyPair toy 7)) = Inr ef \<and>
      decryptFile toy (ef_encryptedData ef) (ef_encryptedKey ef) (ef_iv ef) (ef_authTag ef)
        (kp_privateKey (generateRSAKeyPair toy 7)) = Inr [104, 105])"
proof -
  have len: "length (aes_key_random toy_entropy) = 32" "length (iv_random toy_entropy) = 12"
    by (simp_all add: toy_entropy_def toy_key32_def)
  from encryptFile_decryptFile_roundtrip [OF toy_identity toy_aes_correct len, of "[104, 105]"]
  show ?thesis using toy_identity toy_aes_correct len by blast
qed

lemma decryptKeyWithRSA_not_extractable:
  "decryptKeyWithRSA P encryptedKey rsaPrivateKey = Inr aesKey \<Longrightarrow> \<not> extractable aesKey"
  by (auto simp: decryptKeyWithRSA_def subtle_importKey_raw_AES_def bindE_def
      split: sum.splits if_splits)

lemma encryptKeyWithRSA_not_extractable:
  "\<not> extractable aesKey \<Longrightarrow> encryptKeyWithRSA P seed aesKey rsaPublicKey = Inl InvalidAccessError"
  by (simp add: encryptKeyWithRSA_def subtle_exportKey_raw_def bindE_simps)

lemma toy_pem_import:
  "importPublicKeyFromPEM toy toy_pem =
     Inr \<lparr>keyType = KPublic, algorithm = RSA_OAEP, extractable = False, usages = [UEncrypt],
          material = [9]\<rparr>"
  by (simp add: importPublicKeyFromPEM_def toy_pem_def js_whitespace_def
      base64ToArrayBuffer_def atob_def ascii_whitespace_def strip_one_eq_def b64_index_def
      b64chars_def bindE_simps subtle_importKey_spki_def toy_sel toy_spki_parse_def)

lemma toy_wrap:
  "encryptKeyWithRSA toy 5 (generateAESKey toy_key32) (kp_publicKey (generateRSAKeyPair toy 7)) =
     Inr (7 # toy_key32)"
  by (simp add: encryptKeyWithRSA_def generateAESKey_def subtle_generateKey_AES_def
      subtle_exportKey_raw_def subtle_encrypt_RSA_OAEP_def generateRSAKeyPair_def bindE_simps
      toy_sel toy_key32_def toy_rsa_keygen_def toy_rsa_encrypt_def)

lemma toy_wrap_base64:
  "arrayBufferToBase64 (7 # toy_key32) = ''BwswVXqfxOkOM1h9osfsETZbgKXK7xQ5XoOozfIXPGGG''"
  by (simp add: arrayBufferToBase64_def toy_key32_def b64_char_def b64chars_def)

lemma toy_unwrap:
  "decryptKeyWithRSA toy (7 # toy_key32) (kp_privateKey (generateRSAKeyPair toy 7)) =
     Inr \<lparr>keyType = KSecret, algorithm = AES_GCM, extractable = False,
          usages = [UEncrypt, UDecrypt], material = toy_key32\<rparr>"
  by (simp add: decryptKeyWithRSA_def subtle_decrypt_RSA_OAEP_def subtle_importKey_raw_AES_def
      generateRSAKeyPair_def bindE_simps toy_sel toy_key32_def toy_rsa_keygen_def
      toy_rsa_decrypt_def)

text \<open>
  C1. Re-wrapping preserves the symmetric key: \<open>reEncryptFileKey\<close> applied to the owner's
  wrapped key, the owner's private key and the recipient's PEM should return a key wrapped
  for the recipient. It never does: \<open>decryptKeyWithRSA\<close> imports the AES key with
  \<open>extractable = false\<close>, \<open>encryptKeyWithRSA\<close> starts by exporting the key it is given, the
  platform refuses to export a key that is not extractable, and the \<open>catch\<close> turns that
  into the fixed \<open>Error\<close>. So every call throws, whatever the algorithms compute.
\<close>

theorem reEncryptFileKey_always_throws:
  "reEncryptFileKey P seed encryptedFileKey ownerPrivateKey targetPublicKeyPEM =
     Inl (Error ''No se pudo re-cifrar la clave del archivo'')"
proof -
  have "bindE (decryptKeyWithRSA P buf ownerPrivateKey) (\<lambda>aesKey.
           bindE (importPublicKeyFromPEM P targetPublicKeyPEM) (\<lambda>targetPublicKey.
           bindE (encryptKeyWithRSA P seed aesKey targetPublicKey) (\<lambda>reEncryptedKeyBuffer.
           Inr (arrayBufferToBase64 reEncryptedKeyBuffer)))) \<noteq> Inr v" for buf v
  proof (cases "decryptKeyWithRSA P buf ownerPrivateKey")
    case (Inl e)
    then show ?thesis by (simp add: bindE_simps)
  next
    case (Inr aesKey)
    then have "\<not> extractable aesKey" by (rule decryptKeyWithRSA_not_extractable)
    then show ?thesis
      using Inr by (cases "importPublicKeyFromPEM P targetPublicKeyPEM")
        (simp_all add: bindE_simps encryptKeyWithRSA_not_extractable)
  qed
  then show ?thesis
    by (cases "base64ToArrayBuffer encryptedFileKey")
      (auto simp: reEncryptFileKey_def bindE_simps split: sum.splits)
qed

text \<open>
  The failing input on the small platform: the owner's pair is \<open>generateRSAKeyPair toy 7\<close>,
  the recipient's PEM holds the public key \<open>[9]\<close>. Wrapping the file key for the owner and
  unwrapping it again both work; re-wrapping it for the recipient throws.
\<close>

theorem reEncryptFileKey_failing_input:
  "encryptKeyWithRSA toy 5 (generateAESKey toy_key32) (kp_publicKey (generateRSAKeyPair toy 7)) =
     Inr (7 # toy_key32) \<and>
   arrayBufferToBase64 (7 # toy_key32) = ''BwswVXqfxOkOM1h9osfsETZbgKXK7xQ5XoOozfIXPGGG'' \<and>
   decryptKeyWithRSA toy (7 # toy_key32) (kp_privateKey (generateRSAKeyPair toy 7)) =
     Inr \<lparr>keyType = KSecret, algorithm = AES_GCM, extractable = False,
          usages = [UEncrypt, UDecrypt], material = toy_key32\<rparr> \<and>
   validatePublicKey toy toy_pem \<and>
   reEncryptFileKey toy 6 ''BwswVXqfxOkOM1h9osfsETZbgKXK7xQ5XoOozfIXPGGG''
       (kp_privateKey (generateRSAKeyPair toy 7)) toy_pem =
     Inl (Error ''No se pudo re-cifrar la clave del archivo'')"
  using reEncryptFileKey_always_throws [of toy 6 "''BwswVXqfxOkOM1h9osfsETZbgKXK7xQ5XoOozfIXPGGG''"
      "kp_privateKey (generateRSAKeyPair toy 7)" toy_pem]
  by (simp add: toy_wrap toy_wrap_base64 toy_unwrap validatePublicKey_def toy_pem_import)

lemma decryptFile_base64_Inr_iff:
  "decryptFile_base64 P x k = Inr pt \<longleftrightarrow>
     (\<exists>ed ek iv tag aesKey.
        base64ToArrayBuffer (efd_encryptedData x) = Inr ed \<and>
        base64ToArrayBuffer (efd_encryptedKey x) = Inr ek \<and>
        base64ToArrayBuffer (efd_iv x) = Inr iv \<and>
        base64ToArrayBuffer (efd_authTag x) = Inr tag \<and>
        decryptKeyWithRSA P ek k = Inr aesKey \<and>
        decryptWithAES P ed aesKey iv tag = Inr pt)"
  by (auto simp: decryptFile_base64_def decryptFile_def bindE_def split: sum.splits)

lemma base64ToArrayBuffer_error:
  "base64ToArrayBuffer s = Inl e \<Longrightarrow> e = InvalidCharacterError"
  by (auto simp: base64ToArrayBuffer_def atob_def bindE_def Let_def split: sum.splits if_splits)

lemma decryptFile_error:
  "decryptFile P ed ek iv tag k = Inl e \<Longrightarrow>
     e = InvalidAccessError \<or> e = OperationError \<or> e = DataError"
  by (auto simp: decryptFile_def decryptKeyWithRSA_def decryptWithAES_def
      subtle_decrypt_RSA_OAEP_def subtle_decrypt_AES_GCM_def subtle_importKey_raw_AES_def
      bindE_def Let_def split: sum.splits if_splits option.splits)

lemma decryptFile_base64_error:
  "decryptFile_base64 P x k = Inl e \<Longrightarrow>
     e = InvalidCharacterError \<or> e = InvalidAccessError \<or> e = OperationError \<or> e = DataError"
  by (auto simp: decryptFile_base64_def bindE_def split: sum.splits
      dest: base64ToArrayBuffer_error decryptFile_error)

lemma validateFileIntegrity_decrypt:
  "validateFileIntegrity P ef k =
     Inr (\<exists>pt. decryptFile_base64 P ef k = Inr pt \<and> calculateFileHash P pt = efd_checksum ef)"
  by (cases "decryptFile_base64 P ef k") (simp_all add: validateFileIntegrity_def bindE_simps)

lemmas toy_eval =
  decryptFile_base64_def decryptFile_def decryptKeyWithRSA_def decryptWithAES_def
  subtle_decrypt_RSA_OAEP_def subtle_decrypt_AES_GCM_def subtle_importKey_raw_AES_def
  generateRSAKeyPair_def calculateFileHash_def hex_byte_def hex_digit_def
  base64ToArrayBuffer_def atob_def ascii_whitespace_def strip_one_eq_def b64_index_def
  b64chars_def bindE_simps
  toy_sel toy_rsa_keygen_def toy_rsa_decrypt_def toy_aes_decrypt_def toy_tag_def toy_sha256_def

lemma toy_file_decrypt:
  "decryptFile_base64 toy toy_file (kp_privateKey (generateRSAKeyPair toy 7)) = Inr [104, 105]"
  by (simp add: toy_file_def toy_eval)

lemma toy_file_tampered_decrypt:
  "decryptFile_base64 toy toy_file_tampered (kp_privateKey (generateRSAKeyPair toy 7)) = Inr [104, 105]"
  by (simp add: toy_file_tampered_def toy_eval)

lemma toy_file_other_key_decrypt:
  "decryptFile_base64 toy toy_file_other_key (kp_privateKey (generateRSAKeyPair toy 7)) = Inl OperationError"
  by (simp add: toy_file_other_key_def toy_eval)

lemma toy_hash: "calculateFileHash toy [104, 105] = ''02d1''"
  by (simp add: toy_eval)

lemma toy_file_checksums:
  "efd_checksum toy_file = ''02d1''"
  "efd_checksum toy_file_tampered = ''0000''"
  "efd_metadata toy_file = None"
  by (simp_all add: toy_file_def toy_file_tampered_def)


text \<open>
  C10. \<open>validateFileIntegrity\<close> always settles with a boolean and never throws: it is
  \<open>true\<close> exactly when the four fields decode, the key unwraps, the AEAD decryption
  succeeds and the recomputed digest of the decrypted plaintext equals the stored
  checksum; any error on the way and any digest mismatch give \<open>false\<close>.
\<close>

theorem validateFileIntegrity_returns_boolean:
  "validateFileIntegrity P encryptedFile privateKey =
     Inr (\<exists>encryptedData encryptedKey iv authTag aesKey decryptedBuffer.
            base64ToArrayBuffer (efd_encryptedData encryptedFile) = Inr encryptedData \<and>
            base64ToArrayBuffer (efd_encryptedKey encryptedFile) = Inr encryptedKey \<and>
            base64ToArrayBuffer (efd_iv encryptedFile) = Inr iv \<and>
            base64ToArrayBuffer (efd_authTag encryptedFile) = Inr authTag \<and>
            decryptKeyWithRSA P encryptedKey privateKey = Inr aesKey \<and>
            decryptWithAES P encryptedData aesKey iv authTag = Inr decryptedBuffer \<and>
            calculateFileHash P decryptedBuffer = efd_checksum encryptedFile)"
proof -
  have "(\<exists>encryptedData encryptedKey iv authTag aesKey decryptedBuffer.
            base64ToArrayBuffer (efd_encryptedData encryptedFile) = Inr encryptedData \<and>
            base64ToArrayBuffer (efd_encryptedKey encryptedFile) = Inr encryptedKey \<and>
            base64ToArrayBuffer (efd_iv encryptedFile) = Inr iv \<and>
            base64ToArrayBuffer (efd_authTag encryptedFile) = Inr authTag \<and>
            decryptKeyWithRSA P encryptedKey privateKey = Inr aesKey \<and>
            decryptWithAES P encryptedData aesKey iv authTag = Inr decryptedBuffer \<and>
            calculateFileHash P decryptedBuffer = efd_checksum encryptedFile) =
        (\<exists>decryptedBuffer. decryptFile_base64 P encryptedFile privateKey = Inr decryptedBuffer \<and>
            calculateFileHash P decryptedBuffer = efd_checksum encryptedFile)"
    unfolding decryptFile_base64_Inr_iff by blast
  then show ?thesis
    by (simp only: validateFileIntegrity_decrypt)
qed


theorem validateFileIntegrity_examples:
  "validateFileIntegrity toy toy_file (kp_privateKey (generateRSAKeyPair toy 7)) = Inr True \<and>
   validateFileIntegrity toy toy_file_tampered (kp_privateKey (generateRSAKeyPair toy 7)) = Inr False \<and>
   validateFileIntegrity toy toy_file_other_key (kp_privateKey (generateRSAKeyPair toy 7)) = Inr False"
proof -
  let ?k = "kp_privateKey (generateRSAKeyPair toy 7)"
  have 1: "validateFileIntegrity toy toy_file ?k = Inr True"
    using toy_file_decrypt toy_hash
    unfolding validateFileIntegrity_returns_boolean decryptFile_base64_Inr_iff
    by (simp add: toy_file_def) blast
  have 2: "validateFileIntegrity toy toy_file_tampered ?k = Inr False"
    by (simp add: validateFileIntegrity_decrypt toy_file_tampered_decrypt toy_hash
        toy_file_checksums)
  have 3: "validateFileIntegrity toy toy_file_other_key ?k = Inr False"
    by (simp add: validateFileIntegrity_decrypt toy_file_other_key_decrypt)
  from 1 2 3 show ?thesis by simp
qed

lemma js_ToString_error:
  "js_ToString num v = Inl e \<Longrightarrow> e = TypeError"
  "js_join num vs = Inl e \<Longrightarrow> e = TypeError"
  by (induction num v and num vs rule: js_ToString_js_join.induct)
     (auto simp: bindE_def split: if_splits sum.splits)

lemma metadata_mimeType_error:
  "metadata_mimeType m = Inl e \<Longrightarrow> e = TypeError"
  by (cases m; cases "case m of Decrypted v \<Rightarrow> v | _ \<Rightarrow> JNull")
     (auto simp: metadata_mimeType_def)

lemma new_Blob_result:
  "new_Blob num buf t = Inl e \<Longrightarrow> e = TypeError"
  "new_Blob num buf t = Inr blob \<Longrightarrow> blob_data blob = buf"
  by (auto simp: new_Blob_def bindE_def split: option.splits sum.splits dest: js_ToString_error)

lemma processFileForDownload_Inl:
  "decryptFile_base64 P ef k = Inl e \<Longrightarrow> processFileForDownload P pj num now ef k fn mt = Inl e"
  by (simp add: processFileForDownload_def bindE_simps)

lemma processFileForDownload_mismatch:
  "decryptFile_base64 P ef k = Inr buf \<Longrightarrow> calculateFileHash P buf \<noteq> efd_checksum ef \<Longrightarrow>
   processFileForDownload P pj num now ef k fn mt = Inl (Error checksum_invalid)"
  by (simp add: processFileForDownload_def bindE_simps)

lemma processFileForDownload_match:
  assumes "decryptFile_base64 P ef k = Inr buf" and "calculateFileHash P buf = efd_checksum ef"
  shows "processFileForDownload P pj num now ef k fn mt = Inl TypeError \<or>
     (\<exists>t md. processFileForDownload P pj num now ef k fn mt =
        Inr (\<lparr>blob_data = buf, blob_type = t\<rparr>, md))"
proof -
  define metadata where "metadata =
     (case efd_metadata ef of
        Some m \<Rightarrow>
          (case decryptMetadata P pj m k of
             Inr v \<Rightarrow> Decrypted v
           | Inl e \<Rightarrow> Fallback (fallback_metadata fn mt buf now))
      | None \<Rightarrow> Fallback (fallback_metadata fn mt buf now))"
  have r: "processFileForDownload P pj num now ef k fn mt =
      bindE (metadata_mimeType metadata) (\<lambda>mimeType.
        bindE (new_Blob num buf mimeType) (\<lambda>blob. Inr (blob, metadata)))"
    using assms by (simp add: processFileForDownload_def bindE_simps metadata_def Let_def)
  show ?thesis
  proof (cases "metadata_mimeType metadata")
    case (Inl e)
    with metadata_mimeType_error [OF Inl] show ?thesis by (simp add: r bindE_simps)
  next
    case (Inr t)
    show ?thesis
    proof (cases "new_Blob num buf t")
      case (Inl e)
      with new_Blob_result(1) [OF Inl] Inr show ?thesis by (simp add: r bindE_simps)
    next
      case b: (Inr blob)
      from new_Blob_result(2) [OF b] have "blob = \<lparr>blob_data = buf, blob_type = blob_type blob\<rparr>"
        by (cases blob) simp
      with b Inr show ?thesis by (simp add: r bindE_simps) metis
    qed
  qed
qed

lemma processFileForDownload_no_metadata:
  assumes "decryptFile_base64 P ef k = Inr buf" and "calculateFileHash P buf = efd_checksum ef"
    and "efd_metadata ef = None"
  shows "processFileForDownload P pj num now ef k fn mt =
     Inr (\<lparr>blob_data = buf,
           blob_type = blob_type_of (or_default mt ''application/octet-stream'')\<rparr>,
          Fallback (fallback_metadata fn mt buf now))"
  using assms
  by (simp add: processFileForDownload_def bindE_simps metadata_mimeType_def new_Blob_def
      fallback_metadata_def)

lemma toy_metadata_decrypt:
  "decryptFile_base64 toy toy_file_null_metadata (kp_privateKey (generateRSAKeyPair toy 7)) = Inr [104, 105]"
  "decryptFile_base64 toy toy_file_with_metadata (kp_privateKey (generateRSAKeyPair toy 7)) = Inr [104, 105]"
  by (simp_all add: toy_file_null_metadata_def toy_file_with_metadata_def toy_eval)

lemma toy_metadata_fields:
  "efd_checksum toy_file_null_metadata = ''02d1''"
  "efd_checksum toy_file_with_metadata = ''02d1''"
  "efd_metadata toy_file_null_metadata = Some toy_metadata_null"
  "efd_metadata toy_file_with_metadata = Some toy_metadata_object"
  by (simp_all add: toy_file_null_metadata_def toy_file_with_metadata_def)

lemma toy_metadata_values:
  "decryptMetadata toy toy_parseJson toy_metadata_null
     (kp_privateKey (generateRSAKeyPair toy 7)) = Inr JNull"
  "decryptMetadata toy toy_parseJson toy_metadata_object
     (kp_privateKey (generateRSAKeyPair toy 7)) = Inr (JObject [(''mimeType'', JString ''Text/Plain'')])"
  by (simp_all add: decryptMetadata_def toy_parseJson_def toy_metadata_null_def
      toy_metadata_object_def toy_eval)

lemma toy_metadata_download:
  "processFileForDownload toy toy_parseJson toy_decimal 1000 toy_file_null_metadata
     (kp_privateKey (generateRSAKeyPair toy 7)) None None = Inl TypeError"
  "processFileForDownload toy toy_parseJson toy_decimal 1000 toy_file_with_metadata
     (kp_privateKey (generateRSAKeyPair toy 7)) None None =
     Inr (\<lparr>blob_data = [104, 105], blob_type = ''text/plain''\<rparr>,
          Decrypted (JObject [(''mimeType'', JString ''Text/Plain'')]))"
  by (simp_all add: processFileForDownload_def toy_metadata_decrypt toy_metadata_fields
      toy_metadata_values toy_hash bindE_simps metadata_mimeType_def new_Blob_def
      blob_type_of_def ascii_lower_def)


text \<open>
  C4, as the code has it. \<open>decryptFile\<close> takes no checksum and compares none; the digest
  is checked by its caller \<open>processFileForDownload\<close>. After the fields are decoded, the key
  unwrapped and the ciphertext AEAD-decrypted, \<open>processFileForDownload\<close> recomputes the
  digest of the plaintext and compares it with the stored checksum. A failure of decoding,
  unwrapping or decryption is passed on unchanged and is never the checksum error; a
  mismatch throws \<open>Error('Checksum invalido - archivo corrupto')\<close>. On a match the checksum
  error is not thrown: the plaintext is returned in a \<open>Blob\<close>, unless the read of
  \<open>metadata.mimeType\<close> or its conversion to a string throws a \<open>TypeError\<close> (metadata that
  decrypt to \<open>null\<close>), which cannot happen for a record without encrypted metadata. Whatever
  is returned has the stored digest.
\<close>

theorem processFileForDownload_verifies_checksum:
  "(\<forall>e. decryptFile_base64 P ef k = Inl e \<longrightarrow>
        processFileForDownload P pj num now ef k fn mt = Inl e \<and> e \<noteq> Error checksum_invalid) \<and>
   (\<forall>buf. decryptFile_base64 P ef k = Inr buf \<and> calculateFileHash P buf \<noteq> efd_checksum ef \<longrightarrow>
        processFileForDownload P pj num now ef k fn mt = Inl (Error checksum_invalid)) \<and>
   (\<forall>buf. decryptFile_base64 P ef k = Inr buf \<and> calculateFileHash P buf = efd_checksum ef \<longrightarrow>
        processFileForDownload P pj num now ef k fn mt \<noteq> Inl (Error checksum_invalid) \<and>
        (processFileForDownload P pj num now ef k fn mt = Inl TypeError \<or>
         (\<exists>t md. processFileForDownload P pj num now ef k fn mt =
            Inr (\<lparr>blob_data = buf, blob_type = t\<rparr>, md)))) \<and>
   (\<forall>buf. decryptFile_base64 P ef k = Inr buf \<and> calculateFileHash P buf = efd_checksum ef \<and>
        efd_metadata ef = None \<longrightarrow>
        processFileForDownload P pj num now ef k fn mt =
          Inr (\<lparr>blob_data = buf,
                blob_type = blob_type_of (or_default mt ''application/octet-stream'')\<rparr>,
               Fallback (fallback_metadata fn mt buf now))) \<and>
   (\<forall>blob md. processFileForDownload P pj num now ef k fn mt = Inr (blob, md) \<longrightarrow>
        decryptFile_base64 P ef k = Inr (blob_data blob) \<and>
        calculateFileHash P (blob_data blob) = efd_checksum ef)"
proof (intro conjI allI impI)
  fix e assume e: "decryptFile_base64 P ef k = Inl e"
  then show "processFileForDownload P pj num now ef k fn mt = Inl e"
    by (rule processFileForDownload_Inl)
  from decryptFile_base64_error [OF e] show "e \<noteq> Error checksum_invalid" by auto
next
  fix buf assume "decryptFile_base64 P ef k = Inr buf \<and> calculateFileHash P buf \<noteq> efd_checksum ef"
  then show "processFileForDownload P pj num now ef k fn mt = Inl (Error checksum_invalid)"
    by (simp add: processFileForDownload_mismatch)
next
  fix buf assume a: "decryptFile_base64 P ef k = Inr buf \<and> calculateFileHash P buf = efd_checksum ef"
  then have m: "processFileForDownload P pj num now ef k fn mt = Inl TypeError \<or>
         (\<exists>t md. processFileForDownload P pj num now ef k fn mt =
            Inr (\<lparr>blob_data = buf, blob_type = t\<rparr>, md))"
    by (simp add: processFileForDownload_match)
  then show "processFileForDownload P pj num now ef k fn mt \<noteq> Inl (Error checksum_invalid)"
    by auto
  from m show "processFileForDownload P pj num now ef k fn mt = Inl TypeError \<or>
         (\<exists>t md. processFileForDownload P pj num now ef k fn mt =
            Inr (\<lparr>blob_data = buf, blob_type = t\<rparr>, md))" .
next
  fix buf assume "decryptFile_base64 P ef k = Inr buf \<and> calculateFileHash P buf = efd_checksum ef \<and>
        efd_metadata ef = None"
  then show "processFileForDownload P pj num now ef k fn mt =
          Inr (\<lparr>blob_data = buf,
                blob_type = blob_type_of (or_default mt ''application/octet-stream'')\<rparr>,
               Fallback (fallback_metadata fn mt buf now))"
    by (simp add: processFileForDownload_no_metadata)
next
  fix blob md assume r: "processFileForDownload P pj num now ef k fn mt = Inr (blob, md)"
  have both: "decryptFile_base64 P ef k = Inr (blob_data blob) \<and>
      calculateFileHash P (blob_data blob) = efd_checksum ef"
  proof (cases "decryptFile_base64 P ef k")
    case (Inl e)
    with r show ?thesis by (simp add: processFileForDownload_Inl)
  next
    case (Inr buf)
    show ?thesis
    proof (cases "calculateFileHash P buf = efd_checksum ef")
      case True
      from processFileForDownload_match [OF Inr True, of pj num now fn mt] r Inr True
      show ?thesis by auto
    next
      case False
      from processFileForDownload_mismatch [OF Inr False, of pj num now fn mt] r
      show ?thesis by simp
    qed
  qed
  from both show "decryptFile_base64 P ef k = Inr (blob_data blob)" by (rule conjunct1)
  from both show "calculateFileHash P (blob_data blob) = efd_checksum ef" by (rule conjunct2)
qed



text \<open>
  C4 as stated fails for \<open>decryptFile\<close>: on a record whose stored checksum \<open>0000\<close> is not
  the digest \<open>02d1\<close> of its plaintext, \<open>decryptFile\<close> returns the plaintext.
\<close>

theorem decryptFile_ignores_checksum:
  "decryptFile toy (ef_encryptedData toy_encrypted_tampered) (ef_encryptedKey toy_encrypted_tampered)
      (ef_iv toy_encrypted_tampered) (ef_authTag toy_encrypted_tampered)
      (kp_privateKey (generateRSAKeyPair toy 7)) = Inr [104, 105] \<and>
   calculateFileHash toy [104, 105] = ''02d1'' \<and>
   ef_checksum toy_encrypted_tampered = ''0000''"
  by (simp add: toy_encrypted_tampered_def toy_key32_def toy_eval)

theorem processFileForDownload_verifies_checksum_witness:
  "decryptFile_base64 toy toy_file_other_key (kp_privateKey (generateRSAKeyPair toy 7)) = Inl OperationError \<and>
   processFileForDownload toy toy_parseJson toy_decimal 1000 toy_file_other_key
     (kp_privateKey (generateRSAKeyPair toy 7)) None None = Inl OperationError \<and>
   decryptFile_base64 toy toy_file_tampered (kp_privateKey (generateRSAKeyPair toy 7)) = Inr [104, 105] \<and>
   calculateFileHash toy [104, 105] \<noteq> efd_checksum toy_file_tampered \<and>
   processFileForDownload toy toy_parseJson toy_decimal 1000 toy_file_tampered
     (kp_privateKey (generateRSAKeyPair toy 7)) None None = Inl (Error checksum_invalid) \<and>
   decryptFile_base64 toy toy_file (kp_privateKey (generateRSAKeyPair toy 7)) = Inr [104, 105] \<and>
   calculateFileHash toy [104, 105] = efd_checksum toy_file \<and>
   efd_metadata toy_file = None \<and>
   processFileForDownload toy toy_parseJson toy_decimal 1000 toy_file
     (kp_privateKey (generateRSAKeyPair toy 7)) None None =
     Inr (\<lparr>blob_data = [104, 105], blob_type = ''application/octet-stream''\<rparr>,
          Fallback \<lparr>md_originalName = ''archivo_descargado'', md_mimeType = ''application/octet-stream'',
           md_size = 2, md_uploadedAt = 1000, md_description = None, md_tags = None\<rparr>) \<and>
   processFileForDownload toy toy_parseJson toy_decimal 1000 toy_file_null_metadata
     (kp_privateKey (generateRSAKeyPair toy 7)) None None = Inl TypeError \<and>
   processFileForDownload toy toy_parseJson toy_decimal 1000 toy_file_with_metadata
     (kp_privateKey (generateRSAKeyPair toy 7)) None None =
     Inr (\<lparr>blob_data = [104, 105], blob_type = ''text/plain''\<rparr>,
          Decrypted (JObject [(''mimeType'', JString ''Text/Plain'')]))"
proof -
  let ?k = "kp_privateKey (generateRSAKeyPair toy 7)"
  note inst = processFileForDownload_verifies_checksum
    [of toy _ ?k toy_parseJson toy_decimal 1000 None None]
  note c1 = inst [THEN conjunct1, rule_format]
  note c2 = inst [THEN conjunct2, THEN conjunct1, rule_format]
  note c4 = inst [THEN conjunct2, THEN conjunct2, THEN conjunct2, THEN conjunct1, rule_format]
  have h: "calculateFileHash toy [104, 105] \<noteq> efd_checksum toy_file_tampered"
    "calculateFileHash toy [104, 105] = efd_checksum toy_file"
    by (simp_all add: toy_hash toy_file_checksums)
  have a: "processFileForDownload toy toy_parseJson toy_decimal 1000 toy_file_other_key ?k None None =
      Inl OperationError"
    by (rule c1 [OF toy_file_other_key_decrypt, THEN conjunct1])
  have b: "processFileForDownload toy toy_parseJson toy_decimal 1000 toy_file_tampered ?k None None =
      Inl (Error checksum_invalid)"
    by (rule c2 [OF conjI [OF toy_file_tampered_decrypt h(1)]])
  have "processFileForDownload toy toy_parseJson toy_decimal 1000 toy_file ?k None None =
     Inr (\<lparr>blob_data = [104, 105],
           blob_type = blob_type_of (or_default None ''application/octet-stream'')\<rparr>,
          Fallback (fallback_metadata None None [104, 105] 1000))"
    by (rule c4 [OF conjI [OF toy_file_decrypt conjI [OF h(2) toy_file_checksums(3)]]])
  then have c: "processFileForDownload toy toy_parseJson toy_decimal 1000 toy_file ?k None None =
     Inr (\<lparr>blob_data = [104, 105], blob_type = ''application/octet-stream''\<rparr>,
          Fallback \<lparr>md_originalName = ''archivo_descargado'', md_mimeType = ''application/octet-stream'',
           md_size = 2, md_uploadedAt = 1000, md_description = None, md_tags = None\<rparr>)"
    by (simp add: fallback_metadata_def or_default_def blob_type_of_def ascii_lower_def)
  show ?thesis
    by (intro conjI toy_file_other_key_decrypt a toy_file_tampered_decrypt h b toy_file_decrypt
        toy_file_checksums(3) c toy_metadata_download)
qed


lemmas toy_db_eval =
  toy_db_shared_def toy_db_def toy_share_def toy_user_def toy_f1_def toy_auth_def
  file_findUnique_def fileShare_findUnique_def user_findUnique_email_def

lemma toy_db_shared_lookups:
  "file_findUnique toy_db_shared ''f1'' = Some toy_f1"
  "file_ownerId toy_f1 = ''u_alice''"
  "fileShare_findUnique toy_db_shared ''f1'' ''u_bob'' = Some (toy_share ''s1'' ''bob'' ''download'' None)"
  "fileShare_findUnique toy_db_shared ''f1'' ''u_carol'' =
     Some (toy_share ''s2'' ''carol'' ''read,download'' (Some 500))"
  by (simp_all add: toy_db_eval)

text \<open>
  C5, as the code has it. For a user who is not the owner and holds a share that is
  neither revoked nor expired, the check passes exactly when some granted permission
  (the stored list split at commas, each entry trimmed) is listed for the required one in
  \<open>permissionMap\<close>: \<open>read\<close> is satisfied by any of \<open>read\<close>, \<open>download\<close>, \<open>share\<close>; \<open>write\<close> by
  \<open>write\<close> only; \<open>share\<close> by \<open>share\<close> only; \<open>delete\<close> by nothing.
\<close>

theorem validateFilePermission_shared:
  assumes "file_findUnique d fileId = Some f"
    and "file_ownerId f \<noteq> userId"
    and "fileShare_findUnique d fileId userId = Some share"
    and "\<not> share_isRevoked share"
    and "case share_expiresAt share of None \<Rightarrow> True | Some e \<Rightarrow> \<not> e < now"
  shows "validateFilePermission d fileId userId permission now \<longleftrightarrow>
     (let granted = set (map trim (split_on CHR '','' (share_permissions share)))
      in case permission of
           Read \<Rightarrow> ''read'' \<in> granted \<or> ''download'' \<in> granted \<or> ''share'' \<in> granted
         | Write \<Rightarrow> ''write'' \<in> granted
         | Share \<Rightarrow> ''share'' \<in> granted
         | Delete \<Rightarrow> False)"
  using assms
  by (cases permission)
    (force simp: validateFilePermission_def permissionMap_def permission_name_def
      list_ex_iff Let_def split: option.splits)+

theorem validateFilePermission_shared_witness:
  "file_findUnique toy_db_shared ''f1'' = Some toy_f1 \<and>
   file_ownerId toy_f1 \<noteq> ''u_bob'' \<and>
   fileShare_findUnique toy_db_shared ''f1'' ''u_bob'' =
     Some (toy_share ''s1'' ''bob'' ''download'' None) \<and>
   \<not> share_isRevoked (toy_share ''s1'' ''bob'' ''download'' None) \<and>
   share_expiresAt (toy_share ''s1'' ''bob'' ''download'' None) = None \<and>
   validateFilePermission toy_db_shared ''f1'' ''u_bob'' Read 1000 \<and>
   \<not> validateFilePermission toy_db_shared ''f1'' ''u_bob'' Write 1000 \<and>
   \<not> validateFilePermission toy_db_shared ''f1'' ''u_bob'' Share 1000 \<and>
   \<not> validateFilePermission toy_db_shared ''f1'' ''u_bob'' Delete 1000"
proof -
  let ?s = "toy_share ''s1'' ''bob'' ''download'' None"
  have h: "file_ownerId toy_f1 \<noteq> ''u_bob''" "\<not> share_isRevoked ?s"
    "case share_expiresAt ?s of None \<Rightarrow> True | Some e \<Rightarrow> \<not> e < 1000"
    "share_expiresAt ?s = None"
    by (simp_all add: toy_f1_def toy_share_def)
  have g: "map trim (split_on CHR '','' (share_permissions ?s)) = [''download'']"
    by (simp add: toy_share_def trim_def js_whitespace_def)
  note inst = validateFilePermission_shared
    [OF toy_db_shared_lookups(1) h(1) toy_db_shared_lookups(3) h(2) h(3)]
  show ?thesis
    using inst [of Read] inst [of Write] inst [of Share] inst [of Delete] h
    by (simp add: g toy_db_shared_lookups)
qed

text \<open>
  C5 as stated fails: Bob's share of \<open>f1\<close> grants \<open>download\<close> only, \<open>read\<close> is not in the
  granted set, and the check for \<open>read\<close> passes.
\<close>

theorem download_only_share_passes_read:
  "validateFilePermission toy_db_shared ''f1'' ''u_bob'' Read 1000 \<and>
   fileShare_findUnique toy_db_shared ''f1'' ''u_bob'' =
     Some (toy_share ''s1'' ''bob'' ''download'' None) \<and>
   ''read'' \<notin> set (map trim (split_on CHR '','' (share_permissions (toy_share ''s1'' ''bob'' ''download'' None))))"
  by (simp add: validateFilePermission_def toy_db_eval permissionMap_def permission_name_def
      trim_def js_whitespace_def)

text \<open>
  C8. Expiry: for a user who is not the owner and whose share record has an expiry
  strictly before the current time, the access check is false for every required
  permission, whatever the revoked flag says; the download route answers 403.
\<close>

theorem expired_share_is_denied:
  assumes "file_findUnique d fileId = Some f"
    and "file_ownerId f \<noteq> au_id user"
    and "fileShare_findUnique d fileId (au_id user) = Some share"
    and "share_expiresAt share = Some e"
    and "e < now"
  shows "\<not> validateFilePermission d fileId (au_id user) permission now \<and>
         status (fst (GET_download d (Some user) fileId now)) = 403"
  using assms
  by (simp add: validateFilePermission_def GET_download_def)

theorem expired_share_is_denied_witness:
  "file_findUnique toy_db_shared ''f1'' = Some toy_f1 \<and>
   file_ownerId toy_f1 \<noteq> au_id (toy_auth ''carol'' toy_pem) \<and>
   fileShare_findUnique toy_db_shared ''f1'' (au_id (toy_auth ''carol'' toy_pem)) =
     Some (toy_share ''s2'' ''carol'' ''read,download'' (Some 500)) \<and>
   share_expiresAt (toy_share ''s2'' ''carol'' ''read,download'' (Some 500)) = Some 500 \<and>
   (500 :: int) < 1000 \<and>
   \<not> share_isRevoked (toy_share ''s2'' ''carol'' ''read,download'' (Some 500)) \<and>
   \<not> validateFilePermission toy_db_shared ''f1'' (au_id (toy_auth ''carol'' toy_pem)) Read 1000 \<and>
   status (fst (GET_download toy_db_shared (Some (toy_auth ''carol'' toy_pem)) ''f1'' 1000)) = 403"
proof -
  let ?s = "toy_share ''s2'' ''carol'' ''read,download'' (Some 500)"
  let ?u = "toy_auth ''carol'' toy_pem"
  have id: "au_id ?u = ''u_carol''" by (simp add: toy_auth_def)
  have h: "file_ownerId toy_f1 \<noteq> au_id ?u" "share_expiresAt ?s = Some 500"
    "\<not> share_isRevoked ?s" "(500 :: int) < 1000"
    by (simp_all add: toy_f1_def toy_share_def toy_auth_def)
  have sh: "fileShare_findUnique toy_db_shared ''f1'' (au_id ?u) = Some ?s"
    by (simp add: id toy_db_shared_lookups)
  from expired_share_is_denied [OF toy_db_shared_lookups(1) h(1) sh h(2) h(4), of Read]
  show ?thesis using h sh by (simp add: toy_db_shared_lookups)
qed

lemma find_map_Some:
  "find Q (map g xs) = Some y \<Longrightarrow> \<exists>x \<in> set xs. y = g x \<and> Q (g x)"
  by (induction xs) (auto split: if_splits)

lemma DELETE_file_ok:
  assumes "DELETE_file d auth fileId now = (r, d')" and "status r = 200"
  shows "\<exists>user f. auth = Some user \<and> file_findUnique d fileId = Some f \<and>
           file_ownerId f = au_id user \<and>
           files d' = map (\<lambda>x. if file_id x = fileId
                                 then x\<lparr>file_isDeleted := True, file_deletedAt := Some now\<rparr>
                                 else x) (files d) \<and>
           fileShares d' = map (\<lambda>s. if share_fileId s = fileId
                                 then s\<lparr>share_isRevoked := True, share_revokedAt := Some now,
                                        share_revokedBy := Some (au_id user),
                                        share_updatedAt := now\<rparr>
                                 else s) (fileShares d)"
proof (cases auth)
  case None
  with assms show ?thesis by (auto simp: DELETE_file_def)
next
  case (Some user)
  show ?thesis
  proof (cases "file_findUnique d fileId")
    case None
    with assms Some show ?thesis by (auto simp: DELETE_file_def)
  next
    case f: (Some f)
    with assms Some show ?thesis
      by (auto simp: DELETE_file_def Let_def file_update_def fileShare_updateMany_def
          logAuditEvent_def split: if_splits)
  qed
qed


lemma find_map_preserving:
  "(\<And>x. Q (g x) = Q x) \<Longrightarrow> find Q (map g xs) = map_option g (find Q xs)"
  by (induction xs) auto

lemma find_Some_holds: "find Q xs = Some x \<Longrightarrow> Q x \<and> x \<in> set xs"
  by (induction xs) (auto split: if_splits)

text \<open>
  C7. Cascading revoke: when the delete handler answers 200, the share table afterwards is
  the share table before with every record of the file marked revoked, the handler's time
  as revocation time and the deleting owner as revoker, and every other record untouched.
  So each share record the file had is still there and revoked, and from then on the
  access check is false for its recipient, at any later time and for any permission. (The
  check is false for every user other than the owner, for whom it is true by ownership;
  the share handler refuses to share a file with its owner.)
\<close>

theorem DELETE_file_revokes_every_share:
  assumes del: "DELETE_file d auth fileId now = (r, d')"
    and ok: "status r = 200"
  shows "\<exists>owner. auth = Some owner \<and>
     fileShares d' =
       map (\<lambda>s. if share_fileId s = fileId
                 then s\<lparr>share_isRevoked := True, share_revokedAt := Some now,
                        share_revokedBy := Some (au_id owner), share_updatedAt := now\<rparr>
                 else s) (fileShares d) \<and>
     (\<forall>s \<in> set (fileShares d).
        share_fileId s = fileId \<longrightarrow>
          (\<exists>s' \<in> set (fileShares d').
             share_id s' = share_id s \<and> share_fileId s' = fileId \<and>
             share_sharedWithId s' = share_sharedWithId s \<and>
             share_isRevoked s' \<and> share_revokedAt s' = Some now \<and>
             share_revokedBy s' = Some (au_id owner)) \<and>
          (share_sharedWithId s \<noteq> au_id owner \<longrightarrow>
             (\<forall>permission now'.
                \<not> validateFilePermission d' fileId (share_sharedWithId s) permission now'))) \<and>
     (\<forall>s \<in> set (fileShares d').
        share_fileId s = fileId \<longrightarrow>
          share_isRevoked s \<and> share_revokedAt s = Some now \<and>
          share_revokedBy s = Some (au_id owner)) \<and>
     (\<forall>userId permission now'.
        userId \<noteq> au_id owner \<longrightarrow> \<not> validateFilePermission d' fileId userId permission now')"
proof -
  let ?gf = "\<lambda>x. if file_id x = fileId
      then x\<lparr>file_isDeleted := True, file_deletedAt := Some now\<rparr> else x"
  from DELETE_file_ok [OF del ok] obtain user f where
    a: "auth = Some user" and f: "file_findUnique d fileId = Some f"
    and o: "file_ownerId f = au_id user"
    and fs: "files d' = map ?gf (files d)"
    and ss: "fileShares d' = map (\<lambda>s. if share_fileId s = fileId
                                 then s\<lparr>share_isRevoked := True, share_revokedAt := Some now,
                                        share_revokedBy := Some (au_id user),
                                        share_updatedAt := now\<rparr>
                                 else s) (fileShares d)"
    by (elim exE conjE)
  let ?g = "\<lambda>s. if share_fileId s = fileId
                 then s\<lparr>share_isRevoked := True, share_revokedAt := Some now,
                        share_revokedBy := Some (au_id user), share_updatedAt := now\<rparr>
                 else s"
  have rev: "share_isRevoked s \<and> share_revokedAt s = Some now \<and>
        share_revokedBy s = Some (au_id user)"
    if "s \<in> set (fileShares d')" "share_fileId s = fileId" for s
  proof -
    from that(1) obtain x where x: "s = ?g x"
      unfolding ss by (simp only: set_map) (elim imageE)
    show ?thesis
    proof (cases "share_fileId x = fileId")
      case True
      with x show ?thesis by simp
    next
      case False
      with x that(2) show ?thesis by simp
    qed
  qed
  have "file_findUnique d' fileId = map_option ?gf (file_findUnique d fileId)"
    unfolding file_findUnique_def fs
    by (rule find_map_preserving) simp
  then have f': "file_findUnique d' fileId = Some (?gf f)" "file_ownerId (?gf f) = au_id user"
    using f o by simp_all
  have denied: "\<not> validateFilePermission d' fileId userId permission now'"
    if ne: "userId \<noteq> au_id user" for userId permission now'
  proof (cases "fileShare_findUnique d' fileId userId")
    case None
    then show ?thesis using f' ne by (simp add: validateFilePermission_def)
  next
    case (Some s)
    then have "s \<in> set (fileShares d')" "share_fileId s = fileId"
      unfolding fileShare_findUnique_def by (auto dest: find_Some_holds)
    then have "share_isRevoked s" using rev by blast
    then show ?thesis
      using Some f' ne by (simp add: validateFilePermission_def)
  qed
  have kept: "\<exists>s' \<in> set (fileShares d').
             share_id s' = share_id s \<and> share_fileId s' = fileId \<and>
             share_sharedWithId s' = share_sharedWithId s \<and>
             share_isRevoked s' \<and> share_revokedAt s' = Some now \<and>
             share_revokedBy s' = Some (au_id user)"
    if "s \<in> set (fileShares d)" "share_fileId s = fileId" for s
  proof -
    from that(1) have "?g s \<in> set (fileShares d')"
      unfolding ss by (simp only: set_map) (rule imageI)
    moreover from that(2) have "share_id (?g s) = share_id s \<and> share_fileId (?g s) = fileId \<and>
             share_sharedWithId (?g s) = share_sharedWithId s \<and>
             share_isRevoked (?g s) \<and> share_revokedAt (?g s) = Some now \<and>
             share_revokedBy (?g s) = Some (au_id user)"
      by simp
    ultimately show ?thesis by (rule bexI [rotated])
  qed
  have c2: "\<forall>s \<in> set (fileShares d).
        share_fileId s = fileId \<longrightarrow>
          (\<exists>s' \<in> set (fileShares d').
             share_id s' = share_id s \<and> share_fileId s' = fileId \<and>
             share_sharedWithId s' = share_sharedWithId s \<and>
             share_isRevoked s' \<and> share_revokedAt s' = Some now \<and>
             share_revokedBy s' = Some (au_id user)) \<and>
          (share_sharedWithId s \<noteq> au_id user \<longrightarrow>
             (\<forall>permission now'.
                \<not> validateFilePermission d' fileId (share_sharedWithId s) permission now'))"
    using kept denied by blast
  have c3: "(\<forall>s \<in> set (fileShares d').
        share_fileId s = fileId \<longrightarrow>
          share_isRevoked s \<and> share_revokedAt s = Some now \<and>
          share_revokedBy s = Some (au_id user))"
    using rev by blast
  have c4: "(\<forall>userId permission now'.
        userId \<noteq> au_id user \<longrightarrow> \<not> validateFilePermission d' fileId userId permission now')"
    using denied by blast
  show ?thesis
    by (intro exI [of _ user] conjI a ss c2 c3 c4)
qed

lemma toy_delete:
  "status (fst (DELETE_file toy_db_shared (Some (toy_auth ''alice'' toy_pem_alice)) ''f1'' 200)) = 200"
  by (simp add: DELETE_file_def toy_db_eval Let_def)

theorem DELETE_file_revokes_every_share_witness:
  "fileShares toy_db_shared =
     [toy_share ''s1'' ''bob'' ''download'' None,
      toy_share ''s2'' ''carol'' ''read,download'' (Some 500)] \<and>
   validateFilePermission toy_db_shared ''f1'' ''u_bob'' Read 100 \<and>
   validateFilePermission toy_db_shared ''f1'' ''u_carol'' Read 100 \<and>
   status (fst (DELETE_file toy_db_shared (Some (toy_auth ''alice'' toy_pem_alice)) ''f1'' 200)) = 200 \<and>
   fileShares (snd (DELETE_file toy_db_shared (Some (toy_auth ''alice'' toy_pem_alice)) ''f1'' 200)) =
     [(toy_share ''s1'' ''bob'' ''download'' None)
        \<lparr>share_isRevoked := True, share_revokedAt := Some 200,
         share_revokedBy := Some ''u_alice'', share_updatedAt := 200\<rparr>,
      (toy_share ''s2'' ''carol'' ''read,download'' (Some 500))
        \<lparr>share_isRevoked := True, share_revokedAt := Some 200,
         share_revokedBy := Some ''u_alice'', share_updatedAt := 200\<rparr>] \<and>
   \<not> validateFilePermission
       (snd (DELETE_file toy_db_shared (Some (toy_auth ''alice'' toy_pem_alice)) ''f1'' 200))
       ''f1'' ''u_bob'' Read 300 \<and>
   \<not> validateFilePermission
       (snd (DELETE_file toy_db_shared (Some (toy_auth ''alice'' toy_pem_alice)) ''f1'' 200))
       ''f1'' ''u_carol'' Read 300"
proof -
  let ?X = "DELETE_file toy_db_shared (Some (toy_auth ''alice'' toy_pem_alice)) ''f1'' 200"
  have rows: "fileShares toy_db_shared =
     [toy_share ''s1'' ''bob'' ''download'' None,
      toy_share ''s2'' ''carol'' ''read,download'' (Some 500)]"
    by (simp add: toy_db_shared_def)
  have before: "validateFilePermission toy_db_shared ''f1'' ''u_bob'' Read 100"
    "validateFilePermission toy_db_shared ''f1'' ''u_carol'' Read 100"
    by (simp_all add: validateFilePermission_def toy_db_eval permissionMap_def
        permission_name_def trim_def js_whitespace_def)
  have eq: "?X = (fst ?X, snd ?X)" by simp
  from DELETE_file_revokes_every_share [OF eq toy_delete]
  have after: "fileShares (snd ?X) =
       map (\<lambda>s. if share_fileId s = ''f1''
                 then s\<lparr>share_isRevoked := True, share_revokedAt := Some 200,
                        share_revokedBy := Some (au_id (toy_auth ''alice'' toy_pem_alice)),
                        share_updatedAt := 200\<rparr>
                 else s) (fileShares toy_db_shared)"
    and denied: "\<forall>userId permission now'. userId \<noteq> au_id (toy_auth ''alice'' toy_pem_alice) \<longrightarrow>
      \<not> validateFilePermission (snd ?X) ''f1'' userId permission now'"
    by auto
  from after have after': "fileShares (snd ?X) =
     [(toy_share ''s1'' ''bob'' ''download'' None)
        \<lparr>share_isRevoked := True, share_revokedAt := Some 200,
         share_revokedBy := Some ''u_alice'', share_updatedAt := 200\<rparr>,
      (toy_share ''s2'' ''carol'' ''read,download'' (Some 500))
        \<lparr>share_isRevoked := True, share_revokedAt := Some 200,
         share_revokedBy := Some ''u_alice'', share_updatedAt := 200\<rparr>]"
    by (simp add: rows toy_share_def toy_auth_def)
  from denied have "\<not> validateFilePermission (snd ?X) ''f1'' ''u_bob'' Read 300"
    "\<not> validateFilePermission (snd ?X) ''f1'' ''u_carol'' Read 300"
    by (simp_all add: toy_auth_def)
  with rows before toy_delete after' show ?thesis by (intro conjI)
qed


text \<open>
  C9, as the code has it. The handler validates the request body before it looks up any
  account. Of two attempts that pass the validation (an email of e-mail form, a password
  that is not empty), one whose email matches no user and one with an existing email and
  a wrong password, both receive the same response: status 401 with the one generic
  message \<open>Credenciales invalidas\<close>. An attempt that fails the validation is answered 400
  \<open>Datos invalidos\<close> and changes nothing, whatever the accounts are. Only the status and
  the body of the response are compared here; the audit rows differ and stay on the
  server.
\<close>

theorem login_failures_look_alike:
  "(loginSchema_safeParse W req1 \<and> loginSchema_safeParse W req2 \<and>
    user_findUnique_email d1 (lr_email req1) = None \<and>
    user_findUnique_email d2 (lr_email req2) = Some u \<and>
    \<not> verifyPassword W (lr_password req2) (user_passwordHash u) \<longrightarrow>
      fst (POST_login W d1 req1 now1 newId1 token1) =
        Response 401 (ErrorBody msg_credenciales_invalidas) \<and>
      fst (POST_login W d2 req2 now2 newId2 token2) =
        fst (POST_login W d1 req1 now1 newId1 token1)) \<and>
   (\<not> loginSchema_safeParse W req \<longrightarrow>
      POST_login W d req now newId token =
        (Response 400 (ValidationErrorBody msg_datos_invalidos), d))"
  by (simp add: POST_login_def Let_def)


text \<open>
  C9 as stated fails: the email \<open>nobody\<close> matches no user and is answered 400, while Bob's
  email with a wrong password is answered 401.
\<close>

theorem malformed_login_is_answered_differently:
  "user_findUnique_email toy_db ''nobody'' = None \<and>
   fst (POST_login toy_web toy_db \<lparr>lr_email = ''nobody'', lr_password = ''guess''\<rparr>
          1000 ''s1'' ''t1'') = Response 400 (ValidationErrorBody msg_datos_invalidos) \<and>
   user_findUnique_email toy_db ''bob@example.com'' = Some (toy_user ''bob'' ''hunter2'' toy_pem) \<and>
   \<not> verifyPassword toy_web ''guess'' (user_passwordHash (toy_user ''bob'' ''hunter2'' toy_pem)) \<and>
   fst (POST_login toy_web toy_db \<lparr>lr_email = ''bob@example.com'', lr_password = ''guess''\<rparr>
          1000 ''s1'' ''t1'') = Response 401 (ErrorBody msg_credenciales_invalidas) \<and>
   fst (POST_login toy_web toy_db \<lparr>lr_email = ''nobody'', lr_password = ''guess''\<rparr>
          1000 ''s1'' ''t1'') \<noteq>
   fst (POST_login toy_web toy_db \<lparr>lr_email = ''bob@example.com'', lr_password = ''guess''\<rparr>
          1000 ''s1'' ''t1'')"
  by (simp add: POST_login_def loginSchema_safeParse_def verifyPassword_def toy_web_def
      toy_db_eval Let_def)


theorem login_failures_look_alike_witness:
  "loginSchema_safeParse toy_web \<lparr>lr_email = ''mallory@example.com'', lr_password = ''guess''\<rparr> \<and>
   loginSchema_safeParse toy_web \<lparr>lr_email = ''bob@example.com'', lr_password = ''guess''\<rparr> \<and>
   user_findUnique_email toy_db ''mallory@example.com'' = None \<and>
   user_findUnique_email toy_db ''bob@example.com'' = Some (toy_user ''bob'' ''hunter2'' toy_pem) \<and>
   \<not> verifyPassword toy_web ''guess'' (user_passwordHash (toy_user ''bob'' ''hunter2'' toy_pem)) \<and>
   fst (POST_login toy_web toy_db \<lparr>lr_email = ''mallory@example.com'', lr_password = ''guess''\<rparr>
          1000 ''s1'' ''t1'') = Response 401 (ErrorBody msg_credenciales_invalidas) \<and>
   fst (POST_login toy_web toy_db \<lparr>lr_email = ''bob@example.com'', lr_password = ''guess''\<rparr>
          1000 ''s1'' ''t1'') = Response 401 (ErrorBody msg_credenciales_invalidas) \<and>
   \<not> loginSchema_safeParse toy_web \<lparr>lr_email = ''bob@example.com'', lr_password = []\<rparr> \<and>
   POST_login toy_web toy_db \<lparr>lr_email = ''bob@example.com'', lr_password = []\<rparr> 1000 ''s1'' ''t1'' =
     (Response 400 (ValidationErrorBody msg_datos_invalidos), toy_db) \<and>
   status (fst (POST_login toy_web toy_db \<lparr>lr_email = ''bob@example.com'', lr_password = ''hunter2''\<rparr>
          1000 ''s1'' ''t1'')) = 200"
proof -
  let ?r1 = "\<lparr>lr_email = ''mallory@example.com'', lr_password = ''guess''\<rparr>"
  let ?r2 = "\<lparr>lr_email = ''bob@example.com'', lr_password = ''guess''\<rparr>"
  let ?r3 = "\<lparr>lr_email = ''bob@example.com'', lr_password = []\<rparr>"
  have v: "loginSchema_safeParse toy_web ?r1" "loginSchema_safeParse toy_web ?r2"
    "\<not> loginSchema_safeParse toy_web ?r3"
    by (simp_all add: loginSchema_safeParse_def toy_web_def)
  have l1: "user_findUnique_email toy_db (lr_email ?r1) = None"
    by (simp add: toy_db_eval)
  have l2: "user_findUnique_email toy_db (lr_email ?r2) = Some (toy_user ''bob'' ''hunter2'' toy_pem)"
    by (simp add: toy_db_eval)
  have w: "\<not> verifyPassword toy_web (lr_password ?r2)
      (user_passwordHash (toy_user ''bob'' ''hunter2'' toy_pem))"
    by (simp add: verifyPassword_def toy_web_def toy_user_def)
  have ok: "status (fst (POST_login toy_web toy_db
      \<lparr>lr_email = ''bob@example.com'', lr_password = ''hunter2''\<rparr> 1000 ''s1'' ''t1'')) = 200"
    by (simp add: POST_login_def loginSchema_safeParse_def verifyPassword_def createSession_def
        user_findUnique_id_def toy_web_def toy_db_eval Let_def)
  note inst = login_failures_look_alike
    [of toy_web ?r1 ?r2 toy_db toy_db "toy_user ''bob'' ''hunter2'' toy_pem"
        1000 "''s1''" "''t1''" 1000 "''s1''" "''t1''" ?r3 toy_db 1000 "''s1''" "''t1''"]
  from inst [THEN conjunct1, rule_format, OF conjI [OF v(1) conjI [OF v(2) conjI [OF l1 conjI [OF l2 w]]]]]
  have a: "fst (POST_login toy_web toy_db ?r1 1000 ''s1'' ''t1'') =
        Response 401 (ErrorBody msg_credenciales_invalidas)"
      "fst (POST_login toy_web toy_db ?r2 1000 ''s1'' ''t1'') =
        Response 401 (ErrorBody msg_credenciales_invalidas)"
    by simp_all
  from inst [THEN conjunct2, rule_format, OF v(3)]
  have b: "POST_login toy_web toy_db ?r3 1000 ''s1'' ''t1'' =
     (Response 400 (ValidationErrorBody msg_datos_invalidos), toy_db)" .
  show ?thesis
    using v l1 l2 w a b ok by simp
qed


lemma distinct_map_update:
  "distinct (map k xs) \<Longrightarrow> distinct (map p xs) \<Longrightarrow>
   (\<forall>s \<in> set xs. k s \<noteq> sid \<longrightarrow> p s \<noteq> p row) \<Longrightarrow>
   distinct (map p (map (\<lambda>s. if k s = sid then row else s) xs))"
proof (induction xs)
  case Nil
  then show ?case by simp
next
  case (Cons x xs)
  show ?case
  proof (cases "k x = sid")
    case True
    with Cons.prems(1) have "\<forall>s \<in> set xs. k s \<noteq> sid" by (auto simp: image_iff)
    then have same: "map (\<lambda>s. if k s = sid then row else s) xs = xs"
      by (induction xs) auto
    from \<open>\<forall>s \<in> set xs. k s \<noteq> sid\<close> Cons.prems(3) have "p row \<notin> p ` set xs" by auto
    with Cons.prems(2) True same show ?thesis by simp
  next
    case False
    with Cons.prems(3) have 1: "p x \<noteq> p row" by simp
    from Cons.prems(2) have 2: "\<forall>s \<in> set xs. p s \<noteq> p x" by (auto simp: image_iff)
    have 3: "distinct (map p (map (\<lambda>s. if k s = sid then row else s) xs))"
      using Cons by simp
    from 1 2 have "\<forall>s \<in> set xs. p (if k s = sid then row else s) \<noteq> p x" by auto
    then have "p x \<notin> set (map p (map (\<lambda>s. if k s = sid then row else s) xs))"
      by (auto simp: image_iff)
    with 3 False show ?thesis by (simp only: list.map distinct.simps if_False simp_thms)
  qed
qed

lemma map_key_update:
  "k row = sid \<Longrightarrow> map k (map (\<lambda>s. if k s = sid then row else s) xs) = map k xs"
  by (induction xs) auto

lemma fileShare_create_constraints:
  assumes "fileShare_create d newId data now = Inr (row, d0)" and "fileShare_constraints d"
  shows "fileShare_constraints d0"
proof -
  let ?row = "fileShare_new newId data now"
  from assms(1) have
    chk: "\<not> list_ex (\<lambda>s. share_id s = share_id ?row \<or>
                    (share_fileId s = share_fileId ?row \<and>
                     share_sharedWithId s = share_sharedWithId ?row)) (fileShares d)"
    and d0: "d0 = d\<lparr>fileShares := fileShares d @ [?row]\<rparr>"
    by (auto simp: fileShare_create_def Let_def split: if_splits)
  from chk have "share_id ?row \<notin> share_id ` set (fileShares d)"
    "(share_fileId ?row, share_sharedWithId ?row) \<notin>
       (\<lambda>s. (share_fileId s, share_sharedWithId s)) ` set (fileShares d)"
    by (auto simp: list_ex_iff)
  with assms(2) show ?thesis
    unfolding fileShare_constraints_def d0 by simp
qed

lemma fileShare_update_constraints:
  assumes "fileShare_update d shareId data now = Inr (row, d0)" and "fileShare_constraints d"
  shows "fileShare_constraints d0"
proof -
  from assms(1) obtain old where old: "find (\<lambda>s. share_id s = shareId) (fileShares d) = Some old"
    by (auto simp: fileShare_update_def split: option.splits)
  then have sid: "share_id old = shareId" by (auto dest: find_Some_holds)
  let ?row = "fileShare_set data now old"
  have rid: "share_id ?row = shareId" using sid by (simp add: fileShare_set_def)
  from assms(1) old have
    chk: "\<not> list_ex (\<lambda>s. share_id s \<noteq> shareId \<and> share_fileId s = share_fileId ?row \<and>
                    share_sharedWithId s = share_sharedWithId ?row) (fileShares d)"
    and d0: "d0 = d\<lparr>fileShares := map (\<lambda>s. if share_id s = shareId then ?row else s) (fileShares d)\<rparr>"
    by (auto simp: fileShare_update_def Let_def split: if_splits)
  from chk have ne: "\<forall>s \<in> set (fileShares d). share_id s \<noteq> shareId \<longrightarrow>
      (share_fileId s, share_sharedWithId s) \<noteq> (share_fileId ?row, share_sharedWithId ?row)"
    by (auto simp: list_ex_iff)
  from assms(2) have dist: "distinct (map share_id (fileShares d))"
    "distinct (map (\<lambda>s. (share_fileId s, share_sharedWithId s)) (fileShares d))"
    by (simp_all add: fileShare_constraints_def)
  have "distinct (map (\<lambda>s. (share_fileId s, share_sharedWithId s))
      (map (\<lambda>s. if share_id s = shareId then ?row else s) (fileShares d)))"
    by (rule distinct_map_update [OF dist(1) dist(2) ne])
  moreover have "map share_id (map (\<lambda>s. if share_id s = shareId then ?row else s) (fileShares d)) =
      map share_id (fileShares d)"
    by (rule map_key_update [of share_id ?row shareId, OF rid])
  ultimately show ?thesis
    using dist(1) unfolding fileShare_constraints_def d0 by (simp del: map_map)
qed

lemma find_append_new:
  "find Q xs = None \<Longrightarrow> Q row \<Longrightarrow> find Q (xs @ [row]) = Some row"
  by (induction xs) (auto split: if_splits)

lemma find_map_replace:
  "find Q xs = Some x \<Longrightarrow> R x \<Longrightarrow> Q row \<Longrightarrow>
   find Q (map (\<lambda>s. if R s then row else s) xs) = Some row"
  by (induction xs) (auto split: if_splits)

lemma shareData_fields:
  "sd_fileId (shareData W user fileId f target req) = fileId"
  "sd_sharedWithId (shareData W user fileId f target req) = user_id target"
  "sd_encryptedKey (shareData W user fileId f target req) = ''DEMO_'' @ file_encryptedKey f"
  "sd_permissions (shareData W user fileId f target req) = join_comma (sr_permissions req)"
  "sd_expiresAt (shareData W user fileId f target req) = expiresAt_date W (sr_expiresAt req)"
  "sd_isRevoked (shareData W user fileId f target req) = False"
  "sd_revokedAt (shareData W user fileId f target req) = None"
  "sd_revokedBy (shareData W user fileId f target req) = None"
  by (simp_all add: shareData_def)

lemma fileShare_create_find:
  assumes "fileShare_create d newId data now = Inr (row, d0)"
    and "fileShare_findUnique d (sd_fileId data) (sd_sharedWithId data) = None"
  shows "fileShare_findUnique d0 (sd_fileId data) (sd_sharedWithId data) = Some row \<and>
         written data row \<and> files d0 = files d \<and> users d0 = users d"
proof -
  from assms(1) have row: "row = fileShare_new newId data now"
    and d0: "d0 = d\<lparr>fileShares := fileShares d @ [row]\<rparr>"
    by (auto simp: fileShare_create_def Let_def split: if_splits)
  have w: "written data row" by (simp add: row written_def fileShare_new_def)
  then have "share_fileId row = sd_fileId data \<and> share_sharedWithId row = sd_sharedWithId data"
    by (simp add: written_def)
  with assms(2) have "fileShare_findUnique d0 (sd_fileId data) (sd_sharedWithId data) = Some row"
    unfolding fileShare_findUnique_def d0 by (simp add: find_append_new)
  with w show ?thesis by (simp add: d0)
qed

lemma fileShare_update_find:
  assumes "fileShare_update d (share_id s) data now = Inr (row, d0)"
    and "fileShare_findUnique d (sd_fileId data) (sd_sharedWithId data) = Some s"
  shows "fileShare_findUnique d0 (sd_fileId data) (sd_sharedWithId data) = Some row \<and>
         written data row \<and> files d0 = files d \<and> users d0 = users d"
proof -
  from assms(1) obtain old where
    row: "row = fileShare_set data now old"
    and d0: "d0 = d\<lparr>fileShares := map (\<lambda>x. if share_id x = share_id s then row else x) (fileShares d)\<rparr>"
    by (auto simp: fileShare_update_def Let_def split: option.splits if_splits)
  have w: "written data row" by (simp add: row written_def fileShare_set_def)
  then have q: "share_fileId row = sd_fileId data \<and> share_sharedWithId row = sd_sharedWithId data"
    by (simp add: written_def)
  have "find (\<lambda>x. share_fileId x = sd_fileId data \<and> share_sharedWithId x = sd_sharedWithId data)
      (map (\<lambda>x. if share_id x = share_id s then row else x) (fileShares d)) = Some row"
    by (rule find_map_replace [where x = s])
      (use assms(2) q in \<open>simp_all add: fileShare_findUnique_def\<close>)
  then have "fileShare_findUnique d0 (sd_fileId data) (sd_sharedWithId data) = Some row"
    unfolding fileShare_findUnique_def d0 by simp
  with w show ?thesis by (simp add: d0)
qed

lemma POST_share_success:
  assumes "status (fst (POST_share P W d auth fileId req now newId)) = 201"
  shows "\<exists>user f target row.
    auth = Some user \<and> shareSchema_safeParse W req \<and>
    validateSharePermissions (sr_permissions req) \<and>
    file_findUnique d fileId = Some f \<and> file_ownerId f = au_id user \<and> \<not> file_isDeleted f \<and>
    user_findUnique_email d (sr_userEmail req) = Some target \<and>
    user_id target \<noteq> au_id user \<and>
    (case fileShare_findUnique d fileId (user_id target) of
       None \<Rightarrow> True | Some s \<Rightarrow> share_isRevoked s) \<and>
    fileShare_findUnique (snd (POST_share P W d auth fileId req now newId)) fileId (user_id target)
      = Some row \<and>
    written (shareData W user fileId f target req) row \<and>
    files (snd (POST_share P W d auth fileId req now newId)) = files d \<and>
    users (snd (POST_share P W d auth fileId req now newId)) = users d \<and>
    (fileShare_constraints d \<longrightarrow>
       fileShare_constraints (snd (POST_share P W d auth fileId req now newId)))"
proof -
  from assms obtain user where a: "auth = Some user"
    by (cases auth) (auto simp: POST_share_def)
  from assms a have v: "shareSchema_safeParse W req" "validateSharePermissions (sr_permissions req)"
    by (auto simp: POST_share_def Let_def split: if_splits)
  from assms a v obtain f where f: "file_findUnique d fileId = Some f"
    by (cases "file_findUnique d fileId") (auto simp: POST_share_def Let_def)
  from assms a v f have o: "file_ownerId f = au_id user" "\<not> file_isDeleted f"
    by (auto simp: POST_share_def Let_def split: if_splits)
  from assms a v f o obtain target where t: "user_findUnique_email d (sr_userEmail req) = Some target"
    by (cases "user_findUnique_email d (sr_userEmail req)") (auto simp: POST_share_def Let_def)
  from assms a v f o t have ne: "user_id target \<noteq> au_id user"
    by (auto simp: POST_share_def Let_def split: if_splits)
  let ?data = "shareData W user fileId f target req"
  have sdf: "sd_fileId ?data = fileId" "sd_sharedWithId ?data = user_id target"
    by (simp_all add: shareData_fields)
  show ?thesis
  proof (cases "fileShare_findUnique d fileId (user_id target)")
    case None
    with assms a v f o t ne obtain row d0 where
      c: "fileShare_create d newId ?data now = Inr (row, d0)"
      and r: "snd (POST_share P W d (Some user) fileId req now newId) =
        logAuditEvent d0 ''file_share'' (Some (au_id user)) (Some fileId)
          [(''action'', ''file_share''), (''fileId'', fileId), (''ownerEmail'', au_email user),
           (''targetEmail'', user_email target),
           (''permissions'', join_comma (sr_permissions req)),
           (''shareMethod'', ''e2ee_reencrypt''), (''filename'', file_filename f),
           (''shareId'', share_id row), (''isUpdate'', ''false'')] True None"
      by (auto simp: POST_share_def Let_def bindE_def split: if_splits sum.splits)
    from fileShare_create_find [OF c] None sdf
    have "fileShare_findUnique d0 fileId (user_id target) = Some row \<and>
         written ?data row \<and> files d0 = files d \<and> users d0 = users d" by simp
    moreover have "fileShare_constraints d \<longrightarrow> fileShare_constraints d0"
      using fileShare_create_constraints [OF c] by blast
    ultimately show ?thesis
      using a v f o t ne None
      by (simp add: r logAuditEvent_def fileShare_findUnique_def fileShare_constraints_def)
  next
    case (Some s)
    with assms a v f o t ne have rv: "share_isRevoked s"
      by (auto simp: POST_share_def Let_def split: if_splits)
    with Some assms a v f o t ne obtain row d0 where
      c: "fileShare_update d (share_id s) ?data now = Inr (row, d0)"
      and r: "snd (POST_share P W d (Some user) fileId req now newId) =
        logAuditEvent d0 ''file_share'' (Some (au_id user)) (Some fileId)
          [(''action'', ''file_share''), (''fileId'', fileId), (''ownerEmail'', au_email user),
           (''targetEmail'', user_email target),
           (''permissions'', join_comma (sr_permissions req)),
           (''shareMethod'', ''e2ee_reencrypt''), (''filename'', file_filename f),
           (''shareId'', share_id row), (''isUpdate'', ''true'')] True None"
      by (auto simp: POST_share_def Let_def bindE_def split: if_splits sum.splits)
    from fileShare_update_find [OF c] Some sdf
    have "fileShare_findUnique d0 fileId (user_id target) = Some row \<and>
         written ?data row \<and> files d0 = files d \<and> users d0 = users d" by simp
    moreover have "fileShare_constraints d \<longrightarrow> fileShare_constraints d0"
      using fileShare_update_constraints [OF c] by blast
    ultimately show ?thesis
      using a v f o t ne Some rv
      by (simp add: r logAuditEvent_def fileShare_findUnique_def fileShare_constraints_def)
  qed
qed



lemma split_on_no_sep: "sep \<notin> set p \<Longrightarrow> split_on sep p = [p]"
  by (induction p) auto

lemma split_on_append: "sep \<notin> set p \<Longrightarrow> split_on sep (p @ sep # rest) = p # split_on sep rest"
  by (induction p) auto

lemma split_join:
  "ps \<noteq> [] \<Longrightarrow> \<forall>p \<in> set ps. CHR '','' \<notin> set p \<Longrightarrow> split_on CHR '','' (join_comma ps) = ps"
proof (induction ps rule: join_comma.induct)
  case 1
  then show ?case by simp
next
  case (2 p)
  then show ?case by (simp add: split_on_no_sep)
next
  case (3 p q ps)
  then have "split_on CHR '','' (join_comma (q # ps)) = q # ps" by simp
  moreover from 3 have "CHR '','' \<notin> set p" by simp
  ultimately show ?case by (simp add: split_on_append)
qed

lemma valid_permissions:
  assumes "validateSharePermissions ps"
  shows "ps \<noteq> []" and "\<forall>p \<in> set ps. p = ''read'' \<or> p = ''download'' \<or> p = ''share''"
  using assms by (auto simp: validateSharePermissions_def Let_def list_all_iff split: if_splits)

lemma trim_permission:
  "trim ''read'' = ''read''" "trim ''download'' = ''download''" "trim ''share'' = ''share''"
  by (simp_all add: trim_def js_whitespace_def)

lemma no_comma:
  "p = ''read'' \<or> p = ''download'' \<or> p = ''share'' \<Longrightarrow> CHR '','' \<notin> set p"
  by auto

lemma valid_permissions_stored:
  assumes "validateSharePermissions ps"
  shows "map trim (split_on CHR '','' (join_comma ps)) = ps"
proof -
  note v = valid_permissions [OF assms]
  have p: "p = ''read'' \<or> p = ''download'' \<or> p = ''share''" if "p \<in> set ps" for p
    using v(2) that by blast
  have "\<forall>p \<in> set ps. CHR '','' \<notin> set p"
    using p no_comma by blast
  with v(1) have "split_on CHR '','' (join_comma ps) = ps" by (rule split_join)
  moreover have "trim p = p" if "p \<in> set ps" for p
    using p [OF that] by (elim disjE) (simp_all only: trim_permission)
  then have "map trim ps = ps" by (simp add: map_idI)
  ultimately show ?thesis by simp
qed

lemma strip_one_eq_keeps: "c \<in> set s \<Longrightarrow> c \<noteq> CHR ''='' \<Longrightarrow> c \<in> set (strip_one_eq s)"
proof -
  assume c: "c \<in> set s" "c \<noteq> CHR ''=''"
  show ?thesis
  proof (cases "s \<noteq> [] \<and> last s = CHR ''=''")
    case True
    then have "s = butlast s @ [CHR ''='']" by (metis append_butlast_last_id)
    with c have "c \<in> set (butlast s)" by (metis Un_iff empty_iff empty_set set_ConsD set_append)
    with True show ?thesis by (simp add: strip_one_eq_def)
  next
    case False
    with c show ?thesis by (auto simp: strip_one_eq_def)
  qed
qed

lemma demo_key_is_not_base64:
  "base64ToArrayBuffer (''DEMO_'' @ k) = Inl InvalidCharacterError"
proof -
  let ?d = "filter (\<lambda>c. \<not> ascii_whitespace c) (''DEMO_'' @ k)"
  have "CHR ''_'' \<in> set ?d" by (simp add: ascii_whitespace_def)
  then have "CHR ''_'' \<in> set (strip_one_eq (strip_one_eq ?d))"
    by (simp add: strip_one_eq_keeps)
  moreover have "b64_index CHR ''_'' = None" by (simp add: b64_index_def b64chars_def)
  ultimately have "list_ex (\<lambda>c. b64_index c = None) (strip_one_eq (strip_one_eq ?d))"
    "list_ex (\<lambda>c. b64_index c = None) ?d"
    using \<open>CHR ''_'' \<in> set ?d\<close> by (auto simp: list_ex_iff)
  then show ?thesis
    by (simp add: base64ToArrayBuffer_def atob_def Let_def bindE_simps)
qed

lemma shared_read_check:
  assumes f: "file_findUnique d fileId = Some f" and o: "file_ownerId f \<noteq> userId"
    and s: "fileShare_findUnique d fileId userId = Some row"
    and nr: "\<not> share_isRevoked row"
    and ps: "share_permissions row = join_comma ps" "validateSharePermissions ps"
  shows "validateFilePermission d fileId userId Read now' \<longleftrightarrow>
     \<not> (case share_expiresAt row of None \<Rightarrow> False | Some e \<Rightarrow> e < now')"
proof -
  note v = valid_permissions [OF ps(2)]
  from v(1) obtain p where p: "p \<in> set ps" by (cases ps) auto
  with v(2) have "p = ''read'' \<or> p = ''download'' \<or> p = ''share''" by blast
  with p have "list_ex (\<lambda>p. p = ''read'' \<or> p = ''download'' \<or> p = ''share'') ps"
    unfolding list_ex_iff by blast
  then show ?thesis
    using f o s nr
    by (simp add: validateFilePermission_def ps(1) valid_permissions_stored [OF ps(2)]
        permissionMap_def permission_name_def)
qed

lemma download_demo_share:
  assumes f: "file_findUnique d fileId = Some f" and o: "file_ownerId f \<noteq> au_id recipient"
    and nd: "\<not> file_isDeleted f"
    and s: "fileShare_findUnique d fileId (au_id recipient) = Some row"
    and nr: "\<not> share_isRevoked row"
    and ps: "share_permissions row = join_comma ps" "validateSharePermissions ps"
    and k: "share_encryptedKey row = ''DEMO_'' @ k0"
  shows "status (fst (GET_download d (Some recipient) fileId now')) =
     (if (case share_expiresAt row of None \<Rightarrow> False | Some e \<Rightarrow> e < now') then 403 else 501)"
  using f o nd s nr k
  by (simp add: GET_download_def shared_read_check [OF f o s nr ps] startsWith_def Let_def)


lemma toy_request1_valid:
  "shareSchema_safeParse toy_web toy_request1" "validateSharePermissions [''download'']"
  "shareSchema_safeParse toy_web toy_request2" "validateSharePermissions [''read'']"
  by (simp_all add: shareSchema_safeParse_def validateSharePermissions_def toy_request1_def
      toy_request2_def toy_web_def)


lemma toy_request_fields:
  "sr_userEmail toy_request1 = ''bob@example.com''"
  "sr_permissions toy_request1 = [''download'']"
  "sr_expiresAt toy_request1 = None"
  "sr_userEmail toy_request2 = ''bob@example.com''"
  "sr_permissions toy_request2 = [''read'']"
  "sr_expiresAt toy_request2 = Some ''2030-01-01T00:00:00.000Z''"
  by (simp_all add: toy_request1_def toy_request2_def)

lemma toy_first_share:
  "POST_share toy toy_web toy_db (Some (toy_auth ''alice'' toy_pem_alice)) ''f1'' toy_request1 100 ''s1'' =
     (Response 201
        (ShareBody ''Archivo compartido exitosamente''
           \<lparr>si_id = ''s1'', si_email = ''bob@example.com'', si_username = ''bob'',
            si_permissions = [''download''], si_expiresAt = None, si_createdAt = 100\<rparr>),
      toy_db\<lparr>fileShares := [toy_share ''s1'' ''bob'' ''download'' None],
             auditLogs :=
               [\<lparr>log_userId = Some ''u_alice'', log_fileId = Some ''f1'', log_action = ''file_share'',
                 log_details =
                   [(''action'', ''file_share''), (''fileId'', ''f1''),
                    (''ownerEmail'', ''alice@example.com''), (''targetEmail'', ''bob@example.com''),
                    (''permissions'', ''download''), (''shareMethod'', ''e2ee_reencrypt''),
                    (''filename'', ''report.pdf''), (''shareId'', ''s1''), (''isUpdate'', ''false'')],
                 log_success = True, log_errorMessage = None\<rparr>]\<rparr>)"
  by (simp add: POST_share_def toy_request1_valid validatePublicKey_def toy_pem_import bindE_simps
      Let_def shareData_def fileShare_create_def fileShare_new_def logAuditEvent_def
      expiresAt_date_def toy_request_fields toy_db_eval)


lemma toy_db1_eq:
  "toy_db1 = toy_db\<lparr>fileShares := [toy_share ''s1'' ''bob'' ''download'' None],
             auditLogs :=
               [\<lparr>log_userId = Some ''u_alice'', log_fileId = Some ''f1'', log_action = ''file_share'',
                 log_details =
                   [(''action'', ''file_share''), (''fileId'', ''f1''),
                    (''ownerEmail'', ''alice@example.com''), (''targetEmail'', ''bob@example.com''),
                    (''permissions'', ''download''), (''shareMethod'', ''e2ee_reencrypt''),
                    (''filename'', ''report.pdf''), (''shareId'', ''s1''), (''isUpdate'', ''false'')],
                 log_success = True, log_errorMessage = None\<rparr>]\<rparr>"
  by (simp add: toy_db1_def toy_first_share)

lemma toy_db1_lookups:
  "file_findUnique toy_db1 ''f1'' = Some toy_f1"
  "user_findUnique_email toy_db1 ''bob@example.com'' = Some (toy_user ''bob'' ''hunter2'' toy_pem)"
  "fileShare_findUnique toy_db1 ''f1'' ''u_bob'' = Some (toy_share ''s1'' ''bob'' ''download'' None)"
  by (simp_all add: toy_db1_eq toy_db_eval)

lemma toy_second_share:
  "POST_share toy toy_web toy_db1 (Some (toy_auth ''alice'' toy_pem_alice)) ''f1'' toy_request2 200 ''s2'' =
     (Response 409 (ErrorBody msg_ya_compartido), toy_db1)"
  by (simp add: POST_share_def toy_request1_valid toy_request_fields toy_db1_lookups Let_def
      toy_f1_def toy_auth_def toy_user_def toy_share_def)

lemma toy_download_after_share:
  "fst (GET_download toy_db1 (Some (toy_auth ''bob'' toy_pem)) ''f1'' 150) =
     Response 501 (SharedDemoBody msg_shared_demo ''report.pdf'')"
  by (simp add: GET_download_def validateFilePermission_def toy_db1_eq toy_db_eval
      permissionMap_def permission_name_def trim_def js_whitespace_def startsWith_def Let_def)


lemma toy_first_share_status:
  "status (fst (POST_share toy toy_web toy_db (Some (toy_auth ''alice'' toy_pem_alice)) ''f1''
                  toy_request1 100 ''s1'')) = 201"
  by (simp add: toy_first_share)

lemma toy_file_key_decodes:
  "base64ToArrayBuffer (file_encryptedKey toy_f1) = Inr (7 # toy_key32)"
  by (simp add: toy_f1_def toy_key32_def base64ToArrayBuffer_def atob_def ascii_whitespace_def
      strip_one_eq_def b64_index_def b64chars_def bindE_simps)







text \<open>
  C2, as the code has it. The key a successful share call stores on the share record is
  the marker \<open>DEMO_\<close> followed by the file record's own wrapped key (the key wrapped for
  the owner). It is not base64 text, so no private key unwraps it; and the download route
  never hands it out: for the recipient it answers 501 while the share has not expired,
  and 403 afterwards.
\<close>

theorem POST_share_stores_demo_key:
  assumes ok: "status (fst (POST_share P W d auth fileId req now newId)) = 201"
  shows "\<exists>f target row.
     file_findUnique d fileId = Some f \<and>
     user_findUnique_email d (sr_userEmail req) = Some target \<and>
     fileShare_findUnique (snd (POST_share P W d auth fileId req now newId)) fileId (user_id target)
       = Some row \<and>
     share_encryptedKey row = ''DEMO_'' @ file_encryptedKey f \<and>
     base64ToArrayBuffer (share_encryptedKey row) = Inl InvalidCharacterError \<and>
     (\<forall>recipient now'.
        au_id recipient = user_id target \<longrightarrow>
          status (fst (GET_download (snd (POST_share P W d auth fileId req now newId))
                        (Some recipient) fileId now')) =
            (if (case share_expiresAt row of None \<Rightarrow> False | Some e \<Rightarrow> e < now')
             then 403 else 501))"
proof -
  let ?d' = "snd (POST_share P W d auth fileId req now newId)"
  from POST_share_success [OF ok] obtain user f target row where
    v: "validateSharePermissions (sr_permissions req)"
    and f: "file_findUnique d fileId = Some f" and o: "file_ownerId f = au_id user"
    and nd: "\<not> file_isDeleted f"
    and t: "user_findUnique_email d (sr_userEmail req) = Some target"
    and ne: "user_id target \<noteq> au_id user"
    and s: "fileShare_findUnique ?d' fileId (user_id target) = Some row"
    and w: "written (shareData W user fileId f target req) row"
    and fs: "files ?d' = files d"
    by blast
  from w have row: "share_encryptedKey row = ''DEMO_'' @ file_encryptedKey f"
    "share_permissions row = join_comma (sr_permissions req)" "\<not> share_isRevoked row"
    by (simp_all add: written_def shareData_fields)
  have f': "file_findUnique ?d' fileId = Some f"
    using f by (simp add: file_findUnique_def fs)
  have dl: "status (fst (GET_download ?d' (Some recipient) fileId now')) =
            (if (case share_expiresAt row of None \<Rightarrow> False | Some e \<Rightarrow> e < now')
             then 403 else 501)"
    if r: "au_id recipient = user_id target" for recipient now'
  proof -
    from o ne r have o': "file_ownerId f \<noteq> au_id recipient" by simp
    from s r have s': "fileShare_findUnique ?d' fileId (au_id recipient) = Some row" by simp
    show ?thesis
      by (rule download_demo_share [OF f' o' nd s' row(3) row(2) v row(1)])
  qed
  have b: "base64ToArrayBuffer (share_encryptedKey row) = Inl InvalidCharacterError"
    by (simp only: row(1) demo_key_is_not_base64)
  show ?thesis
    using f t s row(1) b dl by blast
qed

theorem POST_share_stores_demo_key_witness:
  "status (fst (POST_share toy toy_web toy_db (Some (toy_auth ''alice'' toy_pem_alice)) ''f1''
                  toy_request1 100 ''s1'')) = 201 \<and>
   (\<exists>f target row.
     file_findUnique toy_db ''f1'' = Some f \<and>
     user_findUnique_email toy_db (sr_userEmail toy_request1) = Some target \<and>
     fileShare_findUnique toy_db1 ''f1'' (user_id target) = Some row \<and>
     share_encryptedKey row = ''DEMO_'' @ file_encryptedKey f \<and>
     base64ToArrayBuffer (share_encryptedKey row) = Inl InvalidCharacterError \<and>
     (\<forall>recipient now'.
        au_id recipient = user_id target \<longrightarrow>
          status (fst (GET_download toy_db1 (Some recipient) ''f1'' now')) =
            (if (case share_expiresAt row of None \<Rightarrow> False | Some e \<Rightarrow> e < now')
             then 403 else 501)))"
  using POST_share_stores_demo_key [OF toy_first_share_status] toy_first_share_status
  unfolding toy_db1_def by blast


text \<open>
  C2 as stated fails: after Alice shares \<open>f1\<close> with Bob, the key on Bob's share record is
  \<open>DEMO_\<close> followed by Alice's wrapped key, which does not decode (while the file
  record's key decodes and unwraps under Alice's private key), and Bob's download is
  answered 501.
\<close>

theorem share_stores_marker_not_recipient_key:
  "status (fst (POST_share toy toy_web toy_db (Some (toy_auth ''alice'' toy_pem_alice)) ''f1''
                  toy_request1 100 ''s1'')) = 201 \<and>
   map_option share_encryptedKey (fileShare_findUnique toy_db1 ''f1'' ''u_bob'') =
     Some ''DEMO_BwswVXqfxOkOM1h9osfsETZbgKXK7xQ5XoOozfIXPGGG'' \<and>
   base64ToArrayBuffer ''DEMO_BwswVXqfxOkOM1h9osfsETZbgKXK7xQ5XoOozfIXPGGG'' =
     Inl InvalidCharacterError \<and>
   base64ToArrayBuffer (file_encryptedKey toy_f1) = Inr (7 # toy_key32) \<and>
   decryptKeyWithRSA toy (7 # toy_key32) (kp_privateKey (generateRSAKeyPair toy 7)) =
     Inr \<lparr>keyType = KSecret, algorithm = AES_GCM, extractable = False,
          usages = [UEncrypt, UDecrypt], material = toy_key32\<rparr> \<and>
   fst (GET_download toy_db1 (Some (toy_auth ''bob'' toy_pem)) ''f1'' 150) =
     Response 501 (SharedDemoBody msg_shared_demo ''report.pdf'')"
proof -
  have "base64ToArrayBuffer (''DEMO_'' @ ''BwswVXqfxOkOM1h9osfsETZbgKXK7xQ5XoOozfIXPGGG'') =
     Inl InvalidCharacterError"
    by (rule demo_key_is_not_base64)
  then show ?thesis
    using toy_first_share_status toy_file_key_decodes toy_unwrap toy_download_after_share
    by (simp add: toy_db1_lookups toy_share_def)
qed

end
